theory Spec2Isabelle
  imports Complex_Main
begin

section \<open>JavaScript values and objects\<close>

text \<open>
  The geoshapes core works on untyped JavaScript data: request parameters, SPARQL
  bindings, database rows and feature objects. Values are modelled by one datatype.
  An object is the list of its own enumerable properties in enumeration order; what
  it inherits is added where the code reads or tests a key that comes from outside
  (see below). Numbers are carried as reals (the code does no arithmetic on them apart
  from one comparison of a count). \<open>JNative t\<close> is a built-in function or object of
  the engine, named by the text that \<open>String\<close> gives for it; such a value is met
  only as an inherited member.
\<close>

datatype jsval =
    JUndefined
  | JNull
  | JBool bool
  | JNum real
  | JStr string
  | JArr "jsval list"
  | JObj "(string \<times> jsval) list"
  | JNative string

type_synonym obj = "(string \<times> jsval) list"

text \<open>JavaScript truthiness: \<open>if ( value )\<close>, \<open>!value\<close>, \<open>a || b\<close>.\<close>

fun truthy :: "jsval \<Rightarrow> bool" where
  "truthy JUndefined = False"
| "truthy JNull = False"
| "truthy (JBool b) = b"
| "truthy (JNum r) = (r \<noteq> 0)"
| "truthy (JStr s) = (s \<noteq> [])"
| "truthy (JArr _) = True"
| "truthy (JObj _) = True"
| "truthy (JNative _) = True"

text \<open>
  Strict equality \<open>a === b\<close> between two values that come from different sources:
  primitives compare by value, two objects or arrays are never the same object.
\<close>

fun primitive :: "jsval \<Rightarrow> bool" where
  "primitive (JArr _) = False"
| "primitive (JObj _) = False"
| "primitive (JNative _) = False"
| "primitive _ = True"

definition strict_eq :: "jsval \<Rightarrow> jsval \<Rightarrow> bool" where
  "strict_eq a b = (primitive a \<and> a = b)"

text \<open>
  On the own properties of an object: the read \<open>o[k]\<close>, the test for an own key,
  \<open>delete o[k]\<close> and \<open>o[k] = v\<close>. The read is the code's read for every key that no
  object inherits, which holds of the fixed keys the code reads (\<open>id\<close>, \<open>geo\<close>,
  \<open>type\<close>, \<open>results\<close> and the like).
\<close>

definition obj_get :: "obj \<Rightarrow> string \<Rightarrow> jsval" where
  "obj_get ob k = (case map_of ob k of None \<Rightarrow> JUndefined | Some v \<Rightarrow> v)"

definition obj_has :: "obj \<Rightarrow> string \<Rightarrow> bool" where
  "obj_has ob k = (k \<in> set (map fst ob))"

definition obj_delete :: "string \<Rightarrow> obj \<Rightarrow> obj" where
  "obj_delete k ob = filter (\<lambda>kv. fst kv \<noteq> k) ob"

fun obj_set :: "string \<Rightarrow> jsval \<Rightarrow> obj \<Rightarrow> obj" where
  "obj_set k v [] = [(k, v)]"
| "obj_set k v ((k', v') # ob) =
     (if k' = k then (k, v) # ob else (k', v') # obj_set k v ob)"

text \<open>
  Every object literal and every object that \<open>JSON.parse\<close> returns inherits the
  members of \<open>Object.prototype\<close>. They are listed with the text \<open>String\<close> gives for
  each (\<open>__proto__\<close> reads as \<open>Object.prototype\<close> itself). \<open>members\<close> is what an
  object offers besides its own enumerable properties; \<open>o[k]\<close> and \<open>k in o\<close> with a key
  from outside look there as well.
\<close>

definition object_prototype_text :: "(string \<times> string) list" where
  "object_prototype_text =
     [(''constructor'', ''function Object() { [native code] }''),
      (''__defineGetter__'', ''function __defineGetter__() { [native code] }''),
      (''__defineSetter__'', ''function __defineSetter__() { [native code] }''),
      (''hasOwnProperty'', ''function hasOwnProperty() { [native code] }''),
      (''__lookupGetter__'', ''function __lookupGetter__() { [native code] }''),
      (''__lookupSetter__'', ''function __lookupSetter__() { [native code] }''),
      (''isPrototypeOf'', ''function isPrototypeOf() { [native code] }''),
      (''propertyIsEnumerable'', ''function propertyIsEnumerable() { [native code] }''),
      (''toString'', ''function toString() { [native code] }''),
      (''valueOf'', ''function valueOf() { [native code] }''),
      (''__proto__'', ''[object Object]''),
      (''toLocaleString'', ''function toLocaleString() { [native code] }'')]"

type_synonym members = "string \<rightharpoonup> jsval"

definition object_prototype :: members where
  "object_prototype k = map_option JNative (map_of object_prototype_text k)"

definition get_in :: "members \<Rightarrow> obj \<Rightarrow> string \<Rightarrow> jsval" where
  "get_in m ob k =
     (case map_of ob k of
        Some v \<Rightarrow> v
      | None \<Rightarrow> (case m k of Some v \<Rightarrow> v | None \<Rightarrow> JUndefined))"

definition has_in :: "members \<Rightarrow> obj \<Rightarrow> string \<Rightarrow> bool" where
  "has_in m ob k = (obj_has ob k \<or> m k \<noteq> None)"

text \<open>
  An array offers its elements under their indices as own enumerable properties, its
  \<open>length\<close>, the members of \<open>Array.prototype\<close> and those of \<open>Object.prototype\<close>. Which
  names \<open>Array.prototype\<close> defines depends on the version of the engine; the list is a
  parameter.
\<close>

fun show_nat :: "nat \<Rightarrow> string" where
  "show_nat n =
     (if n < 10 then [char_of (48 + n)]
      else show_nat (n div 10) @ [char_of (48 + n mod 10)])"

definition index_props :: "jsval list \<Rightarrow> obj" where
  "index_props xs = zip (map show_nat [0 ..< length xs]) xs"

definition array_members :: "string list \<Rightarrow> jsval list \<Rightarrow> members" where
  "array_members array_prototype_keys xs k =
     (if k = ''length'' then Some (JNum (real (length xs)))
      else if k \<in> set array_prototype_keys
      then Some (JNative (if k = ''constructor'' then ''function Array() { [native code] }''
                          else ''function '' @ k @ ''() { [native code] }''))
      else object_prototype k)"

text \<open>A string-valued parameter that may be absent: \<open>undefined\<close> and \<open>''\<close> are falsy.\<close>

fun truthy_str :: "string option \<Rightarrow> bool" where
  "truthy_str None = False"
| "truthy_str (Some s) = (s \<noteq> [])"

text \<open>An absent value used as a property key is the key \<open>undefined\<close>.\<close>

fun prop_key :: "string option \<Rightarrow> string" where
  "prop_key None = ''undefined''"
| "prop_key (Some s) = s"

section \<open>Errors\<close>

text \<open>
  The code throws \<open>new Err( format, args... )\<close>; the message format and its arguments
  identify the failure (\<open>ErrValue\<close> is \<open>new Err( v )\<close> on a value \<open>v\<close> taken from a
  response). Reading a property of \<open>undefined\<close> or \<open>null\<close> and calling a
  missing method throw a \<open>TypeError\<close>, \<open>JSON.parse\<close> a \<open>SyntaxError\<close>; a rejected
  call of a collaborator carries the collaborator's own reason.
\<close>

datatype error =
    Err string "jsval list"
  | ErrValue jsval
  | TypeError
  | SyntaxError
  | Rejected string

section \<open>Configuration and request\<close>

record param =
  p_name :: "string option"
  p_default :: jsval

record query =
  q_sql :: string
  q_params :: "param list option"

record config =
  maxidcount :: int
  wikidataQueryService :: "string option"
  sparqlHeaders :: obj
  coordinatePredicateId :: string
  queries :: "string \<rightharpoonup> query"
  lineTable :: string
  polygonTable :: string
  mwapi :: string
  mwapiHeaders :: obj

text \<open>The raw request parameters are an object of strings.\<close>

type_synonym reqParams = "string \<rightharpoonup> string"

record parsed =
  r_sparqlQuery :: "string option"
  r_ids :: "string list"
  r_idColumn :: "string option"
  r_useGeoJson :: bool
  r_queryName :: "string option"

section \<open>Request normalisation: \<open>_parseParams\<close>\<close>

text \<open>\<open>s.split( ',' )\<close>: the pieces between the separators, empty ones included.\<close>

fun split :: "char \<Rightarrow> string \<Rightarrow> string list" where
  "split c [] = [[]]"
| "split c (x # xs) =
     (if x = c then [] # split c xs
      else (x # hd (split c xs)) # tl (split c xs))"

text \<open>\<open>new Set( xs )\<close> keeps the first occurrence of each element, in insertion order.\<close>

fun new_Set :: "'a list \<Rightarrow> 'a list" where
  "new_Set [] = []"
| "new_Set (x # xs) = x # filter (\<lambda>y. y \<noteq> x) (new_Set xs)"

definition digit :: "char \<Rightarrow> bool" where
  "digit c = (c \<in> set ''0123456789'')"

text \<open>The entity-id grammar \<open>/^Q[1-9][0-9]{0,15}$/\<close>.\<close>

fun valid_id :: "string \<Rightarrow> bool" where
  "valid_id (q # d # ds) =
     (q = CHR ''Q'' \<and> d \<in> set ''123456789'' \<and> list_all digit ds \<and> length ds \<le> 15)"
| "valid_id _ = False"

text \<open>\<open>ids.forEach\<close> throws at the first id, in insertion order, that fails the grammar.\<close>

fun check_ids :: "string list \<Rightarrow> error option" where
  \<open>check_ids [] = None\<close>
| \<open>check_ids (i # is) =
     (if \<not> valid_id i then Some (Err ''Invalid Wikidata id "%s"'' [JStr i])
      else check_ids is)\<close>

definition parseParams :: "config \<Rightarrow> reqParams \<Rightarrow> error + parsed" where
  \<open>parseParams cfg reqParams =
     (if \<not> truthy_str (reqParams ''ids'') \<and> \<not> truthy_str (reqParams ''query'')
      then Inl (Err ''"ids" or "query" parameter must be given'' [])
      else if truthy_str (reqParams ''query'') \<and> \<not> truthy_str (wikidataQueryService cfg)
      then Inl (Err ''"query" parameter is not enabled'' [])
      else
        let ids = filter (\<lambda>t. t \<noteq> [])
              (new_Set (if truthy_str (reqParams ''ids'')
                        then split CHR '','' (the (reqParams ''ids'')) else []))
        in if int (length ids) > maxidcount cfg
           then Inl (Err ''Not more than %d ids allowed'' [JNum (real_of_int (maxidcount cfg))])
           else case check_ids ids of
               Some e \<Rightarrow> Inl e
             | None \<Rightarrow> Inr \<lparr> r_sparqlQuery = reqParams ''query'',
                             r_ids = ids,
                             r_idColumn = reqParams ''idcolumn'',
                             r_useGeoJson = truthy_str (reqParams ''getgeojson''),
                             r_queryName = reqParams ''sql'' \<rparr>)\<close>

section \<open>Collaborators and state\<close>

text \<open>
  The HTTP client \<open>preq\<close>, the database handle \<open>config.db\<close>, \<open>wd-type-parser\<close>,
  \<open>JSON.parse\<close> and the names \<open>Array.prototype\<close> defines are not part of the core; they
  are parameters of the model. A rejected call returns \<open>Inl\<close>. Features come in two forms: with their
  properties by value (\<open>obj feature\<close>), and with their properties by reference
  (\<open>propref feature\<close>, see the result assembler). The \<open>text\<close> of a sanitization
  request is kept as the list of placeholder features that \<open>JSON.stringify\<close> is
  applied to.
\<close>

record 'p feature =
  f_type :: string
  f_id :: jsval
  f_properties :: 'p
  f_geometry :: jsval

record get_request =
  g_uri :: "string option"
  g_format :: string
  g_query :: string
  g_headers :: obj

record response =
  resp_headers :: obj
  resp_body :: jsval

record post_request =
  po_uri :: string
  po_format :: string
  po_formatversion :: nat
  po_action :: string
  po_text :: "obj feature list"
  po_headers :: obj

record geometry_row =
  row_id :: jsval
  row_data :: jsval

record env =
  preq_get :: "get_request \<Rightarrow> error + response"
  preq_post :: "post_request \<Rightarrow> error + response"
  db_query :: "jsval \<Rightarrow> jsval list \<Rightarrow> error + geometry_row list"
  parseWikidataValue :: "jsval \<Rightarrow> bool \<Rightarrow> jsval"
  JSON_parse :: "jsval \<Rightarrow> jsval option"
  array_prototype_keys :: "string list"
  race :: "error \<Rightarrow> error \<Rightarrow> error"

text \<open>
  The state a request runs in: the configuration object shared by all requests, and
  the calls made to the collaborators so far, oldest first.
\<close>

datatype call =
    Get get_request
  | Post post_request
  | Query jsval "jsval list"
  | EndTiming string

record state =
  st_config :: config
  st_calls :: "call list"

definition log_call :: "call \<Rightarrow> state \<Rightarrow> state" where
  "log_call c st = st\<lparr> st_calls := st_calls st @ [c] \<rparr>"

text \<open>\<open>v.k\<close> on an arbitrary value throws on \<open>undefined\<close> and \<open>null\<close>.\<close>

fun js_prop :: "jsval \<Rightarrow> string \<Rightarrow> error + jsval" where
  "js_prop JUndefined k = Inl TypeError"
| "js_prop JNull k = Inl TypeError"
| "js_prop (JObj ob) k = Inr (obj_get ob k)"
| "js_prop _ k = Inr JUndefined"

section \<open>Graph query runner: \<open>_runWikidataQuery\<close>\<close>

fun join :: "string \<Rightarrow> string list \<Rightarrow> string" where
  "join sep [] = []"
| "join sep [x] = x"
| "join sep (x # y # zs) = x @ sep @ join sep (y # zs)"

definition createPointsSparqlQuery :: "string \<Rightarrow> string list \<Rightarrow> string" where
  "createPointsSparqlQuery coordPredicateId ids =
     ''SELECT ?id ?geo WHERE { VALUES ?id { '' @ join '' '' (map (\<lambda>i. ''wd:'' @ i) ids)
       @ '' } ?id '' @ coordPredicateId @ '' ?geo }''"

definition defaultIdColumn :: string where
  "defaultIdColumn = ''id''"

definition geoColumn :: string where
  "geoColumn = ''geo''"

text \<open>
  \<open>_processResultRow\<close> on a row given by its own enumerable properties \<open>wd\<close> and its
  other members \<open>m\<close>. The test \<open>idColumn in wd\<close> and the read of the id column see both;
  the rest \<open>...result\<close> holds the own enumerable properties.
\<close>

definition processResultRow ::
  "(jsval \<Rightarrow> bool \<Rightarrow> jsval) \<Rightarrow> members \<Rightarrow> obj \<Rightarrow> string option \<Rightarrow> error + obj" where
  "processResultRow parse m wd customIdColumn =
     (let idColumn = (if truthy_str customIdColumn then the customIdColumn else defaultIdColumn)
      in if \<not> has_in m wd idColumn
         then Inl (Err (''SPARQL query result does not contain %j column.''
                 @ (if \<not> truthy_str customIdColumn
                    then '' Use `idcolumn` argument to specify column name, or change the query to return `id` column.''
                    else []))
               [JStr idColumn])
         else
           let value = get_in m wd idColumn;
               result = obj_set ''id'' (parse value True) (obj_delete idColumn wd)
           in if \<not> truthy (obj_get result ''id'')
              then Inl (Err ''SPARQL query result id column %j is expected to be a valid Wikidata id''
                     [JStr idColumn])
              else case js_prop value ''type'' of
                  Inl e \<Rightarrow> Inl e
                | Inr t \<Rightarrow>
                    if t \<noteq> JStr ''uri''
                    then Inl (Err ''SPARQL query result id column %j is expected to be a valid Wikidata id''
                           [JStr idColumn])
                    else Inr (if truthy (get_in m wd geoColumn)
                              then obj_set ''coordinate'' (parse (get_in m wd geoColumn) True) result
                              else result))"

text \<open>
  \<open>bindings.map( ... )\<close>: the first row that throws ends the map. A binding is an
  object in every SPARQL result; an array is a row as well, and \<open>idColumn in wd\<close> throws
  on a primitive value. (A built-in is no JSON value and is not met here.)
\<close>

fun processRows ::
  "(jsval \<Rightarrow> bool \<Rightarrow> jsval) \<Rightarrow> string list \<Rightarrow> jsval list \<Rightarrow> string option
     \<Rightarrow> error + obj list" where
  "processRows parse akeys [] customIdColumn = Inr []"
| "processRows parse akeys (wd # wds) customIdColumn =
     (case (case wd of
              JObj ob \<Rightarrow> processResultRow parse object_prototype ob customIdColumn
            | JArr xs \<Rightarrow>
                processResultRow parse (array_members akeys xs) (index_props xs) customIdColumn
            | _ \<Rightarrow> Inl TypeError) of
        Inl e \<Rightarrow> Inl e
      | Inr r \<Rightarrow>
          (case processRows parse akeys wds customIdColumn of
             Inl e \<Rightarrow> Inl e
           | Inr rs \<Rightarrow> Inr (r # rs)))"

fun opt_val :: "string option \<Rightarrow> jsval" where
  "opt_val None = JUndefined"
| "opt_val (Some s) = JStr s"

definition startsWith :: "string \<Rightarrow> string \<Rightarrow> bool" where
  "startsWith s p = (take (length p) s = p)"

text \<open>The checks on the response of the graph-query endpoint, lines 148 to 158.\<close>

definition readQueryResult ::
  "(jsval \<Rightarrow> bool \<Rightarrow> jsval) \<Rightarrow> string list \<Rightarrow> response \<Rightarrow> string option
     \<Rightarrow> error + obj list" where
  \<open>readQueryResult parse akeys queryResult customIdColumn =
     (case obj_get (resp_headers queryResult) ''content-type'' of
        JStr ct \<Rightarrow>
          if \<not> startsWith ct ''application/sparql-results+json''
          then Inl (Err ''Unexpected content type %s'' [JStr ct])
          else
            (case js_prop (resp_body queryResult) ''results'' of
               Inl e \<Rightarrow> Inl e
             | Inr results \<Rightarrow>
                 if \<not> truthy results
                 then Inl (Err ''SPARQL query result does not have "results.bindings"'' [])
                 else
                   (case js_prop results ''bindings'' of
                      Inl e \<Rightarrow> Inl e
                    | Inr (JArr bindings) \<Rightarrow> processRows parse akeys bindings customIdColumn
                    | Inr _ \<Rightarrow>
                        Inl (Err ''SPARQL query result does not have "results.bindings"'' [])))
      | _ \<Rightarrow> Inl TypeError)\<close>

text \<open>
  \<open>Object.assign( this.config.sparqlHeaders, { 'X-Client-IP': xClientIp } )\<close> writes the
  key into its first argument, the configuration's own header object, and returns that
  object; the request is sent with it.
\<close>

definition runWikidataQuery ::
  "env \<Rightarrow> state \<Rightarrow> string \<Rightarrow> string option \<Rightarrow> string list \<Rightarrow> string option
     \<Rightarrow> string option \<Rightarrow> (error + obj list) \<times> state" where
  "runWikidataQuery env st type query ids customIdColumn xClientIp =
     (let query' = (if \<not> truthy_str query \<and> ids \<noteq> [] \<and> type = ''geopoint''
                    then Some (createPointsSparqlQuery (coordinatePredicateId (st_config st)) ids)
                    else query)
      in if \<not> truthy_str query' then (Inr [], st)
         else
           let headers = obj_set ''X-Client-IP'' (opt_val xClientIp) (sparqlHeaders (st_config st));
               st1 = st\<lparr> st_config := (st_config st)\<lparr> sparqlHeaders := headers \<rparr> \<rparr>;
               req = \<lparr> g_uri = wikidataQueryService (st_config st), g_format = ''json'',
                       g_query = the query', g_headers = headers \<rparr>;
               st2 = log_call (Get req) st1
           in case preq_get env req of
                Inl e \<Rightarrow> (Inl e, st2)
              | Inr queryResult \<Rightarrow>
                  (readQueryResult (parseWikidataValue env) (array_prototype_keys env)
                     queryResult customIdColumn, st2))"

section \<open>Spatial query runner: \<open>_runSqlQuery\<close>\<close>

text \<open>
  \<open>floatRegex = /-?[0-9]+(\.[0-9]+)?/\<close> has no anchors: \<open>floatRegex.test( value )\<close> looks for
  a match starting anywhere in the value. Each matcher returns the remainders of the
  input after the ways its part of the pattern can match at the front.
\<close>

fun opt_minus :: "string \<Rightarrow> string list" where
  "opt_minus [] = [[]]"
| "opt_minus (c # r) = (if c = CHR ''-'' then [r, c # r] else [c # r])"

fun digits1 :: "string \<Rightarrow> string list" where
  "digits1 [] = []"
| "digits1 (c # r) = (if digit c then digits1 r @ [r] else [])"

fun opt_frac :: "string \<Rightarrow> string list" where
  "opt_frac [] = [[]]"
| "opt_frac (c # r) = (if c = CHR ''.'' then digits1 r @ [c # r] else [c # r])"

definition float_at :: "string \<Rightarrow> string list" where
  "float_at s = concat (map opt_frac (concat (map digits1 (opt_minus s))))"

fun floatRegex_test :: "string \<Rightarrow> bool" where
  "floatRegex_test [] = (float_at [] \<noteq> [])"
| "floatRegex_test (c # r) = (float_at (c # r) \<noteq> [] \<or> floatRegex_test r)"

text \<open>
  \<open>rawParams[ paramName ]\<close> for a declared parameter, when the name and the value are
  truthy: the value and the text \<open>floatRegex.test\<close> converts it to. The request
  parameters are an object of strings; a name that is no own key but a member of
  \<open>Object.prototype\<close> reads as that member.
\<close>

definition supplied_value :: "reqParams \<Rightarrow> string option \<Rightarrow> (string \<times> jsval) option" where
  "supplied_value rawParams paramName =
     (if \<not> truthy_str paramName then None
      else case rawParams (the paramName) of
          Some s \<Rightarrow> (if s = [] then None else Some (s, JStr s))
        | None \<Rightarrow> map_option (\<lambda>t. (t, JNative t)) (map_of object_prototype_text (the paramName)))"

text \<open>\<open>query.params.forEach\<close>, pushing one argument per declared parameter.\<close>

fun push_params :: "reqParams \<Rightarrow> param list \<Rightarrow> jsval list \<Rightarrow> error + jsval list" where
  "push_params rawParams [] args = Inr args"
| "push_params rawParams (p # ps) args =
     (case supplied_value rawParams (p_name p) of
        None \<Rightarrow> push_params rawParams ps (args @ [p_default p])
      | Some (text, value) \<Rightarrow>
          if floatRegex_test text
          then Inl (Err ''Invalid value for param %s'' [JStr (the (p_name p))])
          else push_params rawParams ps (args @ [value]))"

text \<open>
  \<open>this.config.queries[ queryKey ] || this.config.queries.default\<close>: the \<open>sql\<close> and the
  \<open>params\<close> of the template taken. A key that is no template but a member of
  \<open>Object.prototype\<close> reads as that member, which is truthy and has neither.
\<close>

definition lookup_template :: "config \<Rightarrow> string option \<Rightarrow> (jsval \<times> param list option) option" where
  "lookup_template cfg queryKey =
     (case queries cfg (prop_key queryKey) of
        Some q \<Rightarrow> Some (JStr (q_sql q), q_params q)
      | None \<Rightarrow>
          if object_prototype (prop_key queryKey) \<noteq> None then Some (JUndefined, None)
          else (case queries cfg ''default'' of
                  Some q \<Rightarrow> Some (JStr (q_sql q), q_params q)
                | None \<Rightarrow> None))"

definition runSqlQuery ::
  "env \<Rightarrow> state \<Rightarrow> string \<Rightarrow> jsval list \<Rightarrow> string option \<Rightarrow> reqParams
     \<Rightarrow> (error + geometry_row list) \<times> state" where
  "runSqlQuery env st type ids queryKey rawParams =
     (if ids = [] \<or> type = ''geopoint'' then (Inr [], st)
      else
        let cfg = st_config st;
            args = [JStr (if type = ''geoshape'' then polygonTable cfg else lineTable cfg), JArr ids]
        in case lookup_template cfg queryKey of
             None \<Rightarrow> (Inl TypeError, st)
           | Some (sql, params) \<Rightarrow>
               (case (case params of
                        None \<Rightarrow> Inr args
                      | Some ps \<Rightarrow> push_params rawParams ps args) of
                  Inl e \<Rightarrow> (Inl e, st)
                | Inr args' \<Rightarrow> (db_query env sql args', log_call (Query sql args') st)))"

section \<open>Property sanitizer: \<open>_expandProperties\<close>\<close>

definition simpleStyleProperties :: "(string \<times> string) list" where
  "simpleStyleProperties =
     [(''fill_opacity'', ''fill-opacity''),
      (''marker_color'', ''marker-color''),
      (''marker_size'', ''marker-size''),
      (''marker_symbol'', ''marker-symbol''),
      (''stroke_opacity'', ''stroke-opacity''),
      (''stroke_width'', ''stroke-width'')]"

text \<open>
  \<open>key = simpleStyleProperties[ key ] || key\<close>, as the property key that
  \<open>transformedProps[ key ]\<close> then writes: the table is an object literal, so a name
  that is no key of the table but a member of \<open>Object.prototype\<close> reads as that member,
  and the key written is the text of the member.
\<close>

definition canonical_key :: "string \<Rightarrow> string" where
  "canonical_key key =
     (case map_of simpleStyleProperties key of
        Some k \<Rightarrow> k
      | None \<Rightarrow> (case map_of object_prototype_text key of Some t \<Rightarrow> t | None \<Rightarrow> key))"

text \<open>The loop \<open>for ( let key in prop )\<close>, filling \<open>transformedProps\<close>.\<close>

fun transformProps :: "(jsval \<Rightarrow> bool \<Rightarrow> jsval) \<Rightarrow> obj \<Rightarrow> obj \<Rightarrow> obj" where
  "transformProps parse [] transformedProps = transformedProps"
| "transformProps parse ((key, value) # prop) transformedProps =
     (if truthy value
      then transformProps parse prop
             (obj_set (canonical_key key) (parse value False) transformedProps)
      else transformProps parse prop transformedProps)"

definition placeholder :: "(jsval \<Rightarrow> bool \<Rightarrow> jsval) \<Rightarrow> obj \<Rightarrow> obj feature" where
  "placeholder parse row =
     \<lparr> f_type = ''Feature'',
       f_id = obj_get row ''id'',
       f_properties = transformProps parse (obj_delete ''id'' row) [],
       f_geometry = JObj [(''type'', JStr ''Point''), (''coordinates'', JArr [JNum 0, JNum 0])] \<rparr>"

text \<open>
  The spread \<open>{ ...row.properties, id: row.id }\<close>: the own enumerable properties of an
  object, the elements of an array and the characters of a string under their indices;
  \<open>undefined\<close>, \<open>null\<close>, numbers and booleans have none.
\<close>

fun spread :: "jsval \<Rightarrow> obj" where
  "spread (JObj ob) = ob"
| "spread (JArr xs) = index_props xs"
| "spread (JStr cs) = index_props (map (\<lambda>c. JStr [c]) cs)"
| "spread _ = []"

fun restoreIds :: "jsval list \<Rightarrow> error + obj list" where
  "restoreIds [] = Inr []"
| "restoreIds (row # rows) =
     (case js_prop row ''properties'' of
        Inl e \<Rightarrow> Inl e
      | Inr props \<Rightarrow>
          (case js_prop row ''id'' of
             Inl e \<Rightarrow> Inl e
           | Inr i \<Rightarrow>
               (case restoreIds rows of
                  Inl e \<Rightarrow> Inl e
                | Inr rs \<Rightarrow> Inr (obj_set ''id'' i (spread props) # rs))))"

text \<open>The checks on the response of the sanitization endpoint, lines 284 to 299.\<close>

definition readSanitized :: "(jsval \<Rightarrow> jsval option) \<Rightarrow> response \<Rightarrow> error + obj list" where
  "readSanitized parse_json apiResult =
     (case js_prop (resp_body apiResult) ''error'' of
        Inl e \<Rightarrow> Inl e
      | Inr err \<Rightarrow>
          if truthy err then Inl (ErrValue err)
          else
            (case js_prop (resp_body apiResult) ''sanitize-mapdata'' of
               Inl e \<Rightarrow> Inl e
             | Inr body \<Rightarrow>
                 if \<not> truthy body
                 then Inl (Err ''Unexpected api action=sanitize-mapdata results'' [])
                 else
                   (case js_prop body ''error'' of
                      Inl e \<Rightarrow> Inl e
                    | Inr err2 \<Rightarrow>
                        if truthy err2 then Inl (ErrValue err2)
                        else
                          (case js_prop body ''sanitized'' of
                             Inl e \<Rightarrow> Inl e
                           | Inr text \<Rightarrow>
                               if \<not> truthy text
                               then Inl (Err ''Unexpected api action=sanitize-mapdata results'' [])
                               else
                                 (case parse_json text of
                                    None \<Rightarrow> Inl SyntaxError
                                  | Some (JArr sanitized) \<Rightarrow> restoreIds sanitized
                                  | Some _ \<Rightarrow>
                                      Inl (Err ''Unexpected api action=sanitize-mapdata sanitized value results'' []))))))"

text \<open>The result is \<open>None\<close> where the code returns \<open>undefined\<close>.\<close>

definition expandProperties ::
  "env \<Rightarrow> state \<Rightarrow> obj list \<Rightarrow> (error + obj list option) \<times> state" where
  "expandProperties env st rawProperties =
     (let props = map (placeholder (parseWikidataValue env)) rawProperties
      in if props = [] then (Inr None, st)
         else
           let req = \<lparr> po_uri = mwapi (st_config st), po_format = ''json'', po_formatversion = 2,
                       po_action = ''sanitize-mapdata'', po_text = props,
                       po_headers = mwapiHeaders (st_config st) \<rparr>;
               st1 = log_call (Post req) st
           in case preq_post env req of
                Inl e \<Rightarrow> (Inl e, st1)
              | Inr apiResult \<Rightarrow>
                  (case readSanitized (JSON_parse env) apiResult of
                     Inl e \<Rightarrow> (Inl e, st1)
                   | Inr rows \<Rightarrow> (Inr (Some rows), st1)))"

section \<open>Result assembler: the start of \<open>_wrapResult\<close>\<close>

text \<open>
  \<open>_wrapResult\<close> does not copy the clean property rows: a feature's \<open>properties\<close> is
  either a new empty object or one of the row objects of the \<open>properties\<close> array, which
  the code changes in place with \<open>delete\<close>. The array is the store of these objects
  and a position in it is the address of a row (\<open>_expandProperties\<close> builds every row as
  an object of its own, line 298).
\<close>

datatype propref = Own obj | Row nat

definition pointGeometry :: "jsval \<Rightarrow> jsval" where
  "pointGeometry coordinates = JObj [(''type'', JStr ''Point''), (''coordinates'', coordinates)]"

text \<open>One step of \<open>properties.map\<close> for points: the feature and the row as it is left.\<close>

definition pointFeature :: "string option \<Rightarrow> nat \<Rightarrow> obj \<Rightarrow> propref feature \<times> obj" where
  "pointFeature idColumn i value =
     (let id = obj_get value ''id'';
          value1 = obj_delete ''id'' (obj_delete (prop_key idColumn) value);
          coordinates = obj_get value1 geoColumn;
          value2 = obj_delete geoColumn value1
      in (\<lparr> f_type = ''Feature'', f_id = id, f_properties = Row i,
             f_geometry = pointGeometry coordinates \<rparr>, value2))"

definition pointFeatures :: "string option \<Rightarrow> obj list \<Rightarrow> propref feature list \<times> obj list" where
  "pointFeatures idColumn properties =
     (let done = map (\<lambda>(i, value). pointFeature idColumn i value)
                   (zip [0 ..< length properties] properties)
      in (map fst done, map snd done))"

text \<open>\<open>properties.find( ... )\<close>, as the position of the row found.\<close>

fun findIndex :: "('a \<Rightarrow> bool) \<Rightarrow> 'a list \<Rightarrow> nat option" where
  "findIndex P [] = None"
| "findIndex P (x # xs) = (if P x then Some 0 else map_option Suc (findIndex P xs))"

text \<open>The callback of \<open>find\<close>: \<open>row.id === props.id\<close>.\<close>

definition sameId :: "jsval \<Rightarrow> obj \<Rightarrow> bool" where
  "sameId rowId props = strict_eq rowId (obj_get props ''id'')"

text \<open>
  Lines 339 to 345: what \<open>feature.properties\<close> becomes for a geometry row, and the
  property rows after the \<open>delete\<close>.
\<close>

definition attachProperties :: "jsval \<Rightarrow> obj list option \<Rightarrow> propref \<times> obj list option" where
  "attachProperties rowId properties =
     (case properties of
        None \<Rightarrow> (Own [], None)
      | Some ps \<Rightarrow>
          (case findIndex (sameId rowId) ps of
             None \<Rightarrow> (Own [], Some ps)
           | Some i \<Rightarrow> (Row i, Some (ps[i := obj_delete ''id'' (ps ! i)]))))"

text \<open>
  \<open>rows.map\<close> for lines and polygons. The store is threaded through the rows: a row
  found for one geometry row has lost its \<open>id\<close> when the next geometry row is looked up.
\<close>

fun lineFeatures ::
  "(jsval \<Rightarrow> jsval option) \<Rightarrow> geometry_row list \<Rightarrow> obj list option
     \<Rightarrow> error + propref feature list \<times> obj list option" where
  "lineFeatures parse_json [] properties = Inr ([], properties)"
| "lineFeatures parse_json (row # rows) properties =
     (case parse_json (row_data row) of
        None \<Rightarrow> Inl SyntaxError
      | Some geometry \<Rightarrow>
          let (props, properties') = attachProperties (row_id row) properties
          in case lineFeatures parse_json rows properties' of
               Inl e \<Rightarrow> Inl e
             | Inr (features, store) \<Rightarrow>
                 Inr (\<lparr> f_type = ''Feature'', f_id = row_id row, f_properties = props,
                        f_geometry = geometry \<rparr> # features, store))"

text \<open>
  Lines 311 to 348: the features, and the property rows as the code leaves them. The
  geometry rows are the array the spatial query runner returns, so the test
  \<open>else if ( rows )\<close> holds whenever it is reached.
\<close>

definition assembleFeatures ::
  "(jsval \<Rightarrow> jsval option) \<Rightarrow> string option \<Rightarrow> string \<Rightarrow> geometry_row list \<Rightarrow> obj list option
     \<Rightarrow> error + propref feature list \<times> obj list option" where
  "assembleFeatures parse_json idColumn type rows properties =
     (if type = ''geopoint'' \<and> properties \<noteq> None
      then (let (features, store) = pointFeatures idColumn (the properties)
            in Inr (features, Some store))
      else lineFeatures parse_json rows properties)"

text \<open>What a reader of the returned document finds as the properties of a feature.\<close>

fun deref :: "obj list option \<Rightarrow> propref \<Rightarrow> obj" where
  "deref store (Own ob) = ob"
| "deref None (Row i) = []"
| "deref (Some ps) (Row i) = (if i < length ps then ps ! i else [])"

definition resolve :: "obj list option \<Rightarrow> propref feature \<Rightarrow> obj feature" where
  "resolve store f =
     \<lparr> f_type = f_type f, f_id = f_id f, f_properties = deref store (f_properties f),
       f_geometry = f_geometry f \<rparr>"

section \<open>The topology encoder of \<open>topojson\<close>\<close>

text \<open>
  Modelled from the spec: \<open>topojson.topology\<close> and its inverse \<open>topojson.feature\<close> belong to
  the library \<open>topojson\<close>, which \<open>_wrapResult\<close> calls and whose code is not part of the
  repository. The specification describes the result as "a topology object with arcs +
  geometries referencing properties per object", "a delta/shared-arc re-encoding of a
  feature collection that deduplicates shared boundary geometry while preserving
  per-feature properties", built by an encoder that takes a property-extraction function. The definitions of this
  section follow these words: the lines of all geometries are stored once in a table of
  arcs, a geometry refers to its lines by their positions in the table, and the object
  of a feature carries what the property-extraction function returns for the feature.
  Coordinates are kept exact, without the delta coding of the library (the specification
  states no law on them); a geometry that is not of a line or polygon type is kept as it
  is.
\<close>

datatype arcs = Arc nat | Arcs "arcs list" | Kept jsval

datatype shape = Lines string arcs | Whole jsval

record topo_object =
  to_id :: jsval
  to_properties :: obj
  to_shape :: shape

record topology_doc =
  tp_arcs :: "jsval list"
  tp_geometries :: "topo_object list"

text \<open>
  Modelled from the spec: how deep the lines lie in the coordinates of a geometry of a
  line or polygon type (a line itself, a list of lines or rings, a list of polygons).
\<close>

definition line_depth :: "string \<Rightarrow> nat option" where
  "line_depth t =
     (if t = ''LineString'' then Some 0
      else if t = ''MultiLineString'' \<or> t = ''Polygon'' then Some 1
      else if t = ''MultiPolygon'' then Some 2
      else None)"

text \<open>
  Modelled from the spec: a geometry \<open>{ type, coordinates }\<close> of a line or polygon type,
  taken apart into its type, the depth of its lines and its coordinates, and put
  together again.
\<close>

fun split_geometry :: "jsval \<Rightarrow> (string \<times> nat \<times> jsval) option" where
  "split_geometry (JObj [(k1, JStr t), (k2, c)]) =
     (if k1 = ''type'' \<and> k2 = ''coordinates''
      then map_option (\<lambda>d. (t, d, c)) (line_depth t) else None)"
| "split_geometry _ = None"

definition join_geometry :: "string \<Rightarrow> jsval \<Rightarrow> jsval" where
  "join_geometry t c = JObj [(''type'', JStr t), (''coordinates'', c)]"

text \<open>Modelled from the spec: the lines in coordinates whose lines lie at depth \<open>d\<close>.\<close>

primrec lines_at :: "nat \<Rightarrow> jsval \<Rightarrow> jsval list" where
  "lines_at 0 v = [v]"
| "lines_at (Suc d) v = (case v of JArr vs \<Rightarrow> concat (map (lines_at d) vs) | _ \<Rightarrow> [])"

definition geometry_lines :: "jsval \<Rightarrow> jsval list" where
  "geometry_lines g = (case split_geometry g of Some (t, d, c) \<Rightarrow> lines_at d c | None \<Rightarrow> [])"

text \<open>Modelled from the spec: the position of a line in the table of arcs.\<close>

fun index_of :: "'a \<Rightarrow> 'a list \<Rightarrow> nat" where
  "index_of x [] = 0"
| "index_of x (y # ys) = (if x = y then 0 else Suc (index_of x ys))"

text \<open>
  Modelled from the spec: coordinates with every line replaced by its position in the
  table, and back.
\<close>

primrec encode_at :: "nat \<Rightarrow> jsval list \<Rightarrow> jsval \<Rightarrow> arcs" where
  "encode_at 0 table v = Arc (index_of v table)"
| "encode_at (Suc d) table v =
     (case v of JArr vs \<Rightarrow> Arcs (map (encode_at d table) vs) | _ \<Rightarrow> Kept v)"

fun decode_arcs :: "jsval list \<Rightarrow> arcs \<Rightarrow> jsval" where
  "decode_arcs table (Arc i) = (if i < length table then table ! i else JUndefined)"
| "decode_arcs table (Arcs as) = JArr (map (decode_arcs table) as)"
| "decode_arcs table (Kept v) = v"

text \<open>
  Modelled from the spec: \<open>topojson.topology( { data: collection }, { 'property-transform': transform } )\<close>
  on the features of the collection: the table of arcs holds every line of the
  collection once, and the object of a feature carries the id of the feature, the value
  of \<open>transform\<close> on the feature and the geometry with its lines as positions in the
  table.
\<close>

definition topology :: "obj feature list \<Rightarrow> (obj feature \<Rightarrow> obj) \<Rightarrow> topology_doc" where
  "topology features transform =
     (let table = remdups (concat (map (\<lambda>f. geometry_lines (f_geometry f)) features))
      in \<lparr> tp_arcs = table,
           tp_geometries =
             map (\<lambda>f. \<lparr> to_id = f_id f,
                         to_properties = transform f,
                         to_shape =
                           (case split_geometry (f_geometry f) of
                              Some (t, d, c) \<Rightarrow> Lines t (encode_at d table c)
                            | None \<Rightarrow> Whole (f_geometry f)) \<rparr>) features \<rparr>)"

text \<open>
  Modelled from the spec: the decoder \<open>topojson.feature\<close>, from a topology back to the
  features of a collection.
\<close>

definition topology_features :: "topology_doc \<Rightarrow> obj feature list" where
  "topology_features doc =
     map (\<lambda>ob. \<lparr> f_type = ''Feature'', f_id = to_id ob, f_properties = to_properties ob,
                  f_geometry =
                    (case to_shape ob of
                       Lines t a \<Rightarrow> join_geometry t (decode_arcs (tp_arcs doc) a)
                     | Whole g \<Rightarrow> g) \<rparr>) (tp_geometries doc)"

section \<open>Format encoder: the end of \<open>_wrapResult\<close>\<close>

datatype document = FeatureCollection "obj feature list" | Topology topology_doc

text \<open>
  Lines 353 to 363. \<open>topojson.topology\<close> is called on \<open>{ data: result }\<close> with the
  option \<open>'property-transform': ( feature ) => feature.properties\<close>.
\<close>

definition wrapResult ::
  "env \<Rightarrow> string option \<Rightarrow> string \<Rightarrow> geometry_row list \<Rightarrow> obj list option \<Rightarrow> bool
     \<Rightarrow> error + document" where
  "wrapResult env idColumn type rows properties useGeoJson =
     (case assembleFeatures (JSON_parse env) idColumn type rows properties of
        Inl e \<Rightarrow> Inl e
      | Inr (features, store) \<Rightarrow>
          let result = map (resolve store) features
          in if \<not> useGeoJson
             then Inr (Topology (topology result (\<lambda>feature. f_properties feature)))
             else Inr (FeatureCollection result))"

section \<open>The request object and \<open>execute\<close>\<close>

record geoshapes =
  gs_type :: string
  gs_reqParams :: reqParams
  gs_sparqlQuery :: "string option"
  gs_ids :: "string list"
  gs_idColumn :: "string option"
  gs_useGeoJson :: bool
  gs_queryName :: "string option"

definition GeoShapes :: "string \<Rightarrow> reqParams \<Rightarrow> config \<Rightarrow> error + geoshapes" where
  "GeoShapes type reqParams cfg =
     (case parseParams cfg reqParams of
        Inl e \<Rightarrow> Inl e
      | Inr p \<Rightarrow>
          Inr \<lparr> gs_type = type, gs_reqParams = reqParams, gs_sparqlQuery = r_sparqlQuery p,
                gs_ids = r_ids p, gs_idColumn = r_idColumn p, gs_useGeoJson = r_useGeoJson p,
                gs_queryName = r_queryName p \<rparr>)"

text \<open>\<open>new Set\<close> on values: the explicit ids followed by the ids of the query rows.\<close>

fun new_Set_vals :: "jsval list \<Rightarrow> jsval list" where
  "new_Set_vals [] = []"
| "new_Set_vals (x # xs) = x # filter (\<lambda>y. \<not> strict_eq y x) (new_Set_vals xs)"

text \<open>
  \<open>execute\<close>. Both calls under \<open>Promise.all\<close> are started, the spatial query first;
  if both are rejected, which reason the request fails with is left to \<open>race\<close>.
  The time passed to \<open>metrics.endTiming\<close> is not modelled.
\<close>

definition execute ::
  "env \<Rightarrow> state \<Rightarrow> geoshapes \<Rightarrow> string option \<Rightarrow> bool \<Rightarrow> (error + document) \<times> state" where
  "execute env st gs xClientIp metrics =
     (case runWikidataQuery env st (gs_type gs) (gs_sparqlQuery gs) (gs_ids gs) (gs_idColumn gs)
             xClientIp of
        (Inl e, st1) \<Rightarrow> (Inl e, st1)
      | (Inr rawProperties, st1) \<Rightarrow>
          let queriedIds = map (\<lambda>row. obj_get row ''id'') rawProperties;
              allIds = new_Set_vals (map JStr (gs_ids gs) @ queriedIds);
              (geo, st2) = runSqlQuery env st1 (gs_type gs) allIds (gs_queryName gs) (gs_reqParams gs);
              (clean, st3) = expandProperties env st2 rawProperties
          in case (geo, clean) of
               (Inl e1, Inl e2) \<Rightarrow> (Inl (race env e1 e2), st3)
             | (Inl e1, Inr _) \<Rightarrow> (Inl e1, st3)
             | (Inr _, Inl e2) \<Rightarrow> (Inl e2, st3)
             | (Inr geoRows, Inr cleanProperties) \<Rightarrow>
                 (case wrapResult env (gs_idColumn gs) (gs_type gs) geoRows cleanProperties
                         (gs_useGeoJson gs) of
                    Inl e \<Rightarrow> (Inl e, st3)
                  | Inr result \<Rightarrow>
                      (Inr result,
                       if metrics
                       then log_call (EndTiming (gs_type gs @
                              (if truthy_str (gs_sparqlQuery gs) then ''.wdqs'' else ''.ids''))) st3
                       else st3)))"

section \<open>Vocabulary of the specification and example data\<close>

text \<open>
  The id set as the specification describes it: the id list split on commas, the empty
  tokens discarded, duplicates removed.
\<close>

definition dedup_ids :: "string option \<Rightarrow> string list" where
  "dedup_ids raw =
     (case raw of
        None \<Rightarrow> []
      | Some s \<Rightarrow> new_Set (filter (\<lambda>t. t \<noteq> []) (split CHR '','' s)))"

definition first_invalid :: "string list \<Rightarrow> string option" where
  "first_invalid ids = find (\<lambda>i. \<not> valid_id i) ids"

definition demo_config :: config where
  "demo_config =
     \<lparr> maxidcount = 2,
       wikidataQueryService = Some ''https://query.wikidata.org/sparql'',
       sparqlHeaders = [(''User-Agent'', JStr ''kartotherian'')],
       coordinatePredicateId = ''wdt:P625'',
       queries = [''default'' \<mapsto>
         \<lparr> q_sql = ''SELECT id, data FROM $1~ WHERE id IN ($2:csv)'',
           q_params = Some [\<lparr> p_name = Some ''arg1'', p_default = JNum 0.001 \<rparr>] \<rparr>],
       lineTable = ''wikidata_relation_members'',
       polygonTable = ''wikidata_relation_polygon'',
       mwapi = ''https://en.wikipedia.org/w/api.php'',
       mwapiHeaders = [] \<rparr>"

definition config_without_wdqs :: config where
  "config_without_wdqs = demo_config\<lparr> wikidataQueryService := None \<rparr>"

definition config_max_one :: config where
  "config_max_one = demo_config\<lparr> maxidcount := 1 \<rparr>"

definition req_four_tokens :: reqParams where
  "req_four_tokens = [''ids'' \<mapsto> ''Q1,,Q2,Q1'']"

definition req_three_ids :: reqParams where
  "req_three_ids = [''ids'' \<mapsto> ''Q1,Q2,Q3'']"

definition req_ids_and_query :: reqParams where
  "req_ids_and_query = [''ids'' \<mapsto> ''Q1'', ''query'' \<mapsto> ''SELECT ?id WHERE {}'']"

definition req_empty_ids :: reqParams where
  "req_empty_ids = [''ids'' \<mapsto> []]"

definition req_lowercase_id :: reqParams where
  "req_lowercase_id = [''ids'' \<mapsto> ''q1,Q2'']"

text \<open>
  The strict numeric-literal grammar of the specification: the whole value is matched
  by \<open>-?[0-9]+(\.[0-9]+)?\<close>. A declared parameter is supplied when it has a name and the
  request holds a non-empty value under that name.
\<close>

definition strict_numeric :: "string \<Rightarrow> bool" where
  "strict_numeric s = ([] \<in> set (float_at s))"

definition supplied :: "reqParams \<Rightarrow> param \<Rightarrow> bool" where
  "supplied rawParams p = (supplied_value rawParams (p_name p) \<noteq> None)"

text \<open>Example data: a configuration, collaborators that answer one entity, requests.\<close>

definition demo_state :: state where
  "demo_state = \<lparr> st_config = demo_config, st_calls = [] \<rparr>"

definition req_numeric_param :: reqParams where
  "req_numeric_param = [''ids'' \<mapsto> ''Q1'', ''arg1'' \<mapsto> ''0.5'']"

definition req_text_param :: reqParams where
  "req_text_param = [''ids'' \<mapsto> ''Q1'', ''arg1'' \<mapsto> ''abc'']"

definition demo_binding :: jsval where
  "demo_binding =
     JObj [(''id'', JObj [(''type'', JStr ''uri''),
                          (''value'', JStr ''http://www.wikidata.org/entity/Q1'')]),
           (''geo'', JObj [(''type'', JStr ''literal''), (''value'', JStr ''Point(13.4 52.5)'')]),
           (''marker_color'', JObj [(''type'', JStr ''literal''), (''value'', JStr ''f00'')])]"

definition demo_parse :: "jsval \<Rightarrow> bool \<Rightarrow> jsval" where
  "demo_parse v ignoreUnknown =
     (case v of
        JObj ob \<Rightarrow>
          (case obj_get ob ''value'' of
             JStr s \<Rightarrow>
               if obj_get ob ''type'' = JStr ''uri'' then JStr (drop 31 s)
               else if s = ''Point(13.4 52.5)'' then JArr [JNum 13.4, JNum 52.5]
               else JStr s
           | _ \<Rightarrow> JUndefined)
      | _ \<Rightarrow> JUndefined)"

definition demo_sanitized_text :: string where
  \<open>demo_sanitized_text = ''[{"id":"Q1","properties":{"geo":[13.4,52.5],"marker-color":"#f00"}}]''\<close>

definition demo_polygon_text :: string where
  \<open>demo_polygon_text = ''{"type":"Polygon","coordinates":[[[0,0],[1,0],[1,1],[0,0]]]}''\<close>

definition demo_polygon :: jsval where
  "demo_polygon =
     JObj [(''type'', JStr ''Polygon''),
           (''coordinates'', JArr [JArr [JArr [JNum 0, JNum 0], JArr [JNum 1, JNum 0],
                                        JArr [JNum 1, JNum 1], JArr [JNum 0, JNum 0]]])]"

definition demo_json :: "jsval \<Rightarrow> jsval option" where
  "demo_json v =
     (if v = JStr demo_sanitized_text
      then Some (JArr [JObj [(''id'', JStr ''Q1''),
                             (''properties'', JObj [(''geo'', JArr [JNum 13.4, JNum 52.5]),
                                                    (''marker-color'', JStr ''#f00'')])]])
      else if v = JStr demo_polygon_text then Some demo_polygon
      else None)"

definition demo_env :: env where
  "demo_env =
     \<lparr> preq_get = (\<lambda>req. Inr \<lparr> resp_headers = [(''content-type'', JStr ''application/sparql-results+json;charset=utf-8'')],
                              resp_body = JObj [(''results'', JObj [(''bindings'', JArr [demo_binding])])] \<rparr>),
       preq_post = (\<lambda>req. Inr \<lparr> resp_headers = [],
                               resp_body = JObj [(''sanitize-mapdata'',
                                                  JObj [(''sanitized'', JStr demo_sanitized_text)])] \<rparr>),
       db_query = (\<lambda>sql args. Inr [\<lparr> row_id = JStr ''Q1'', row_data = JStr demo_polygon_text \<rparr>]),
       parseWikidataValue = demo_parse,
       JSON_parse = demo_json,
       array_prototype_keys = [''constructor'', ''map'', ''push'', ''join''],
       race = (\<lambda>e1 e2. e1) \<rparr>"

definition req_point :: reqParams where
  "req_point = [''ids'' \<mapsto> ''Q1'', ''getgeojson'' \<mapsto> ''1'']"

definition demo_point_request :: geoshapes where
  "demo_point_request =
     \<lparr> gs_type = ''geopoint'', gs_reqParams = req_point, gs_sparqlQuery = None,
       gs_ids = [''Q1''], gs_idColumn = None, gs_useGeoJson = True, gs_queryName = None \<rparr>"

text \<open>
  The configured id column (the request's override when one is given, the default
  otherwise), a URI-typed value, and the properties of a placeholder feature as the
  specification describes them: the non-id columns of the row with a truthy value,
  their keys in canonical form, their values normalised.
\<close>

definition idColumn_of :: "string option \<Rightarrow> string" where
  "idColumn_of customIdColumn = (if truthy_str customIdColumn then the customIdColumn else ''id'')"

definition uri_typed :: "jsval \<Rightarrow> bool" where
  "uri_typed v = (js_prop v ''type'' = Inr (JStr ''uri''))"

definition cleaned_columns :: "(jsval \<Rightarrow> bool \<Rightarrow> jsval) \<Rightarrow> obj \<Rightarrow> obj" where
  "cleaned_columns parse row =
     map (\<lambda>(k, v). (canonical_key k, parse v False))
       (filter (\<lambda>(k, v). k \<noteq> ''id'' \<and> truthy v) row)"

definition literal_id_row :: obj where
  "literal_id_row = [(''id'', JObj [(''type'', JStr ''literal''), (''value'', JStr ''Q42'')])]"

definition uri_id_row :: obj where
  "uri_id_row = [(''item'', JObj [(''type'', JStr ''uri''),
                                  (''value'', JStr ''http://www.wikidata.org/entity/Q42'')]),
                 (''marker_color'', JObj [(''type'', JStr ''literal''), (''value'', JStr ''f00'')])]"

definition styled_row :: obj where
  "styled_row = [(''id'', JStr ''Q42''),
                 (''marker_color'', JObj [(''type'', JStr ''literal''), (''value'', JStr ''f00'')]),
                 (''title'', JStr []),
                 (''name'', JObj [(''type'', JStr ''literal''), (''value'', JStr ''Berlin'')])]"

definition constructor_row :: obj where
  "constructor_row = [(''id'', JStr ''Q42''),
                      (''constructor'', JObj [(''type'', JStr ''literal''), (''value'', JStr ''Bob'')])]"

text \<open>
  The features of the specification's result assembler, by value. For a point: the
  coordinate column supplies the geometry, and the other columns, without \<open>id\<close>, without
  the column the request names as its id column and without the coordinate column, are
  the properties. For a line or polygon: the parsed geometry, and the first clean
  property row with the same id, without its \<open>id\<close>, or no properties.
\<close>

definition spec_line_feature ::
  "(jsval \<Rightarrow> jsval option) \<Rightarrow> obj list option \<Rightarrow> geometry_row \<Rightarrow> obj feature" where
  "spec_line_feature parse_json properties row =
     \<lparr> f_type = ''Feature'', f_id = row_id row,
       f_properties =
         (case properties of
            None \<Rightarrow> []
          | Some ps \<Rightarrow>
              (case find (sameId (row_id row)) ps of
                 None \<Rightarrow> []
               | Some p \<Rightarrow> obj_delete ''id'' p)),
       f_geometry = the (parse_json (row_data row)) \<rparr>"

definition spec_point_feature :: "string option \<Rightarrow> obj \<Rightarrow> obj feature" where
  "spec_point_feature idColumn value =
     \<lparr> f_type = ''Feature'', f_id = obj_get value ''id'',
       f_properties =
         filter (\<lambda>(k, v). k \<noteq> ''id'' \<and> k \<noteq> prop_key idColumn \<and> k \<noteq> geoColumn) value,
       f_geometry = pointGeometry (obj_get value geoColumn) \<rparr>"

text \<open>
  A property row of the store against the row it was when assembly began: unchanged, or
  without its \<open>id\<close> because a geometry row with an id of \<open>S\<close> has taken it.
\<close>

definition consumed :: "jsval set \<Rightarrow> obj \<Rightarrow> obj \<Rightarrow> bool" where
  "consumed S c p = (c = p \<or> (c = obj_delete ''id'' p \<and> obj_get p ''id'' \<in> S))"

definition two_rows_same_id :: "geometry_row list" where
  "two_rows_same_id =
     [\<lparr> row_id = JStr ''Q1'', row_data = JStr demo_polygon_text \<rparr>,
      \<lparr> row_id = JStr ''Q1'', row_data = JStr demo_polygon_text \<rparr>]"

definition two_rows :: "geometry_row list" where
  "two_rows =
     [\<lparr> row_id = JStr ''Q1'', row_data = JStr demo_polygon_text \<rparr>,
      \<lparr> row_id = JStr ''Q2'', row_data = JStr demo_polygon_text \<rparr>]"

definition q1_named :: obj where
  "q1_named = [(''id'', JStr ''Q1''), (''name'', JStr ''x'')]"

definition q1_other :: obj where
  "q1_other = [(''id'', JStr ''Q1''), (''population'', JNum 5)]"

definition q1_point :: obj where
  "q1_point = [(''id'', JStr ''Q1''), (''geo'', JArr [JNum 1, JNum 2]), (''name'', JStr ''x'')]"

section \<open>Properties of request normalisation\<close>

lemma set_new_Set: "set (new_Set xs) = set xs"
  by (induction xs) auto

lemma distinct_new_Set: "distinct (new_Set xs)"
  by (induction xs) (auto simp: set_new_Set)

text \<open>Discarding tokens before or after the deduplication gives the same list.\<close>

lemma filter_new_Set: "filter P (new_Set xs) = new_Set (filter P xs)"
proof (induction xs)
  case Nil
  show ?case by simp
next
  case (Cons x xs)
  have swap: "filter P (filter (\<lambda>y. y \<noteq> x) (new_Set xs)) = filter (\<lambda>y. y \<noteq> x) (filter P (new_Set xs))"
    by (simp add: conj_commute)
  show ?case
  proof (cases "P x")
    case True
    with swap Cons show ?thesis by simp
  next
    case False
    then have "x \<notin> set (new_Set (filter P xs))"
      by (simp add: set_new_Set)
    then have "filter (\<lambda>y. y \<noteq> x) (new_Set (filter P xs)) = new_Set (filter P xs)"
      by (auto simp: filter_id_conv)
    with swap False Cons show ?thesis by simp
  qed
qed

lemma code_ids_eq:
  "filter (\<lambda>t. t \<noteq> []) (new_Set (if truthy_str raw then split CHR '','' (the raw) else []))
     = dedup_ids raw"
proof (cases raw)
  case None
  then show ?thesis by (simp add: dedup_ids_def)
next
  case (Some s)
  then show ?thesis
    by (cases "s = []") (simp_all add: dedup_ids_def filter_new_Set)
qed

lemma check_ids_None: "check_ids ids = None \<longleftrightarrow> list_all valid_id ids"
  by (induction ids) auto

lemma check_ids_Some:
  "\<not> list_all valid_id ids \<Longrightarrow>
     \<exists>i. first_invalid ids = Some i \<and> check_ids ids = Some (Err ''Invalid Wikidata id \"%s\"'' [JStr i])"
  by (induction ids) (auto simp: first_invalid_def)

text \<open>Past its first two checks, \<open>_parseParams\<close> depends on the id list only.\<close>

lemma parseParams_unfold:
  assumes "truthy_str (reqParams ''ids'') \<or> truthy_str (reqParams ''query'')"
      and "truthy_str (reqParams ''query'') \<longrightarrow> truthy_str (wikidataQueryService cfg)"
  shows "parseParams cfg reqParams =
     (if int (length (dedup_ids (reqParams ''ids''))) > maxidcount cfg
      then Inl (Err ''Not more than %d ids allowed'' [JNum (real_of_int (maxidcount cfg))])
      else case check_ids (dedup_ids (reqParams ''ids'')) of
             Some e \<Rightarrow> Inl e
           | None \<Rightarrow> Inr \<lparr> r_sparqlQuery = reqParams ''query'',
                           r_ids = dedup_ids (reqParams ''ids''),
                           r_idColumn = reqParams ''idcolumn'',
                           r_useGeoJson = truthy_str (reqParams ''getgeojson''),
                           r_queryName = reqParams ''sql'' \<rparr>)"
  using assms unfolding parseParams_def code_ids_eq Let_def by auto

lemma entity_id_examples:
  "valid_id ''Q42''" "valid_id ''Q1234567890123456''" "\<not> valid_id ''Q12345678901234567''"
  "\<not> valid_id ''P31''" "\<not> valid_id ''Q''" "\<not> valid_id ''Q1 ''"
  by (simp_all add: digit_def)

text \<open>
  C5. A request that passes the two checks made before the id list is read (an id list
  or a query is given; a query is given only when the graph-query service is
  configured) is normalised as follows. If every id of the deduplicated list (split on
  commas, empty tokens discarded, first occurrences kept) matches the entity-id grammar
  and the list is not longer than \<open>maxidcount\<close>, normalisation succeeds and the ids of
  the request are exactly that list; if the list is longer than \<open>maxidcount\<close>,
  normalisation fails with the too-many-ids error. The list has no duplicates and holds
  the non-empty tokens of the raw string.
\<close>

theorem C5_normalization:
  assumes "truthy_str (reqParams ''ids'') \<or> truthy_str (reqParams ''query'')"
      and "truthy_str (reqParams ''query'') \<longrightarrow> truthy_str (wikidataQueryService cfg)"
  shows "(list_all valid_id (dedup_ids (reqParams ''ids'')) \<and>
          int (length (dedup_ids (reqParams ''ids''))) \<le> maxidcount cfg \<longrightarrow>
            parseParams cfg reqParams =
              Inr \<lparr> r_sparqlQuery = reqParams ''query'',
                    r_ids = dedup_ids (reqParams ''ids''),
                    r_idColumn = reqParams ''idcolumn'',
                    r_useGeoJson = truthy_str (reqParams ''getgeojson''),
                    r_queryName = reqParams ''sql'' \<rparr>)
       \<and> (int (length (dedup_ids (reqParams ''ids''))) > maxidcount cfg \<longrightarrow>
            parseParams cfg reqParams =
              Inl (Err ''Not more than %d ids allowed'' [JNum (real_of_int (maxidcount cfg))]))
       \<and> distinct (dedup_ids (reqParams ''ids''))
       \<and> set (dedup_ids (reqParams ''ids'')) =
           (case reqParams ''ids'' of None \<Rightarrow> {} | Some s \<Rightarrow> set (split CHR '','' s) - {[]})"
proof -
  have "distinct (dedup_ids (reqParams ''ids''))"
    by (simp add: dedup_ids_def distinct_new_Set split: option.splits)
  moreover have "set (dedup_ids (reqParams ''ids'')) =
           (case reqParams ''ids'' of None \<Rightarrow> {} | Some s \<Rightarrow> set (split CHR '','' s) - {[]})"
    by (auto simp: dedup_ids_def set_new_Set split: option.splits)
  ultimately show ?thesis
    using check_ids_None [of "dedup_ids (reqParams ''ids'')"]
    by (auto simp: parseParams_unfold [OF assms])
qed

theorem C5_normalization_witness:
  "parseParams demo_config req_four_tokens =
     Inr \<lparr> r_sparqlQuery = None, r_ids = [''Q1'', ''Q2''], r_idColumn = None,
           r_useGeoJson = False, r_queryName = None \<rparr>
   \<and> parseParams demo_config req_three_ids =
       Inl (Err ''Not more than %d ids allowed'' [JNum 2])"
proof -
  have ids1: "dedup_ids (req_four_tokens ''ids'') = [''Q1'', ''Q2'']"
    by (simp add: dedup_ids_def req_four_tokens_def)
  have ids2: "dedup_ids (req_three_ids ''ids'') = [''Q1'', ''Q2'', ''Q3'']"
    by (simp add: dedup_ids_def req_three_ids_def)
  have v: "list_all valid_id [''Q1'', ''Q2'']"
    by (simp add: digit_def)
  have m: "maxidcount demo_config = 2"
    by (simp add: demo_config_def)
  have a: "truthy_str (req_four_tokens ''ids'') \<or> truthy_str (req_four_tokens ''query'')"
    by (simp add: req_four_tokens_def)
  have b: "truthy_str (req_four_tokens ''query'') \<longrightarrow> truthy_str (wikidataQueryService demo_config)"
    by (simp add: req_four_tokens_def)
  have c: "truthy_str (req_three_ids ''ids'') \<or> truthy_str (req_three_ids ''query'')"
    by (simp add: req_three_ids_def)
  have d: "truthy_str (req_three_ids ''query'') \<longrightarrow> truthy_str (wikidataQueryService demo_config)"
    by (simp add: req_three_ids_def)
  have o: "req_four_tokens ''query'' = None" "req_four_tokens ''idcolumn'' = None"
    "req_four_tokens ''getgeojson'' = None" "req_four_tokens ''sql'' = None"
    by (simp_all add: req_four_tokens_def)
  show ?thesis
    using C5_normalization [OF a b] C5_normalization [OF c d] ids1 ids2 v m o
    by simp
qed

text \<open>
  The claim as stated fails where an earlier check rejects the request: one valid id,
  within the maximum, together with a query while no graph-query service is configured;
  and the empty id string, whose id list is empty, with no query.
\<close>

theorem C5_counterexample:
  "list_all valid_id (dedup_ids (req_ids_and_query ''ids''))
   \<and> int (length (dedup_ids (req_ids_and_query ''ids''))) \<le> maxidcount config_without_wdqs
   \<and> parseParams config_without_wdqs req_ids_and_query
       = Inl (Err ''\"query\" parameter is not enabled'' [])
   \<and> list_all valid_id (dedup_ids (req_empty_ids ''ids''))
   \<and> int (length (dedup_ids (req_empty_ids ''ids''))) \<le> maxidcount demo_config
   \<and> parseParams demo_config req_empty_ids
       = Inl (Err ''\"ids\" or \"query\" parameter must be given'' [])"
  by (simp add: dedup_ids_def parseParams_def config_without_wdqs_def demo_config_def digit_def
      req_ids_and_query_def req_empty_ids_def)

text \<open>
  C6. A request that passes the two first checks and whose deduplicated id list is not
  longer than \<open>maxidcount\<close> fails with the invalid-id error, naming the first offending
  id, whenever some id of the list violates the entity-id grammar. A lowercase prefix,
  a leading zero and the value zero violate the grammar.
\<close>

theorem C6_invalid_id:
  assumes "truthy_str (reqParams ''ids'') \<or> truthy_str (reqParams ''query'')"
      and "truthy_str (reqParams ''query'') \<longrightarrow> truthy_str (wikidataQueryService cfg)"
      and "int (length (dedup_ids (reqParams ''ids''))) \<le> maxidcount cfg"
      and "\<not> list_all valid_id (dedup_ids (reqParams ''ids''))"
  shows "(\<exists>i. first_invalid (dedup_ids (reqParams ''ids'')) = Some i
            \<and> parseParams cfg reqParams = Inl (Err ''Invalid Wikidata id \"%s\"'' [JStr i]))
         \<and> \<not> valid_id ''q1'' \<and> \<not> valid_id ''Q01'' \<and> \<not> valid_id ''Q0''"
  using check_ids_Some [OF assms(4)] assms(3)
  by (auto simp: parseParams_unfold [OF assms(1,2)])

theorem C6_invalid_id_witness:
  "parseParams demo_config req_lowercase_id = Inl (Err ''Invalid Wikidata id \"%s\"'' [JStr ''q1''])"
proof -
  have a: "truthy_str (req_lowercase_id ''ids'') \<or> truthy_str (req_lowercase_id ''query'')"
    by (simp add: req_lowercase_id_def)
  have b: "truthy_str (req_lowercase_id ''query'') \<longrightarrow> truthy_str (wikidataQueryService demo_config)"
    by (simp add: req_lowercase_id_def)
  have ids: "dedup_ids (req_lowercase_id ''ids'') = [''q1'', ''Q2'']"
    by (simp add: dedup_ids_def req_lowercase_id_def)
  have c: "int (length (dedup_ids (req_lowercase_id ''ids''))) \<le> maxidcount demo_config"
    by (simp add: ids demo_config_def)
  have d: "\<not> list_all valid_id (dedup_ids (req_lowercase_id ''ids''))"
    by (simp add: ids)
  show ?thesis
    using C6_invalid_id [OF a b c d] by (simp add: ids first_invalid_def)
qed

text \<open>
  The claim as stated fails where the count check comes first: two ids, one of them
  with a lowercase prefix, and a maximum of one.
\<close>

theorem C6_counterexample:
  "\<not> list_all valid_id (dedup_ids (req_lowercase_id ''ids''))
   \<and> parseParams config_max_one req_lowercase_id
       = Inl (Err ''Not more than %d ids allowed'' [JNum 1])"
  by (simp add: dedup_ids_def parseParams_def config_max_one_def demo_config_def digit_def
      req_lowercase_id_def)

section \<open>Properties of the spatial query runner\<close>

lemma digits1_nonempty: "digits1 s \<noteq> [] \<longleftrightarrow> (s \<noteq> [] \<and> digit (hd s))"
  by (cases s) auto

lemma opt_frac_nonempty: "opt_frac s \<noteq> []"
  by (cases s) auto

lemma float_at_nonempty:
  "float_at s \<noteq> [] \<longleftrightarrow>
     (s \<noteq> [] \<and> (digit (hd s) \<or> (hd s = CHR ''-'' \<and> tl s \<noteq> [] \<and> digit (hd (tl s)))))"
proof -
  have "concat (map opt_frac ys) \<noteq> [] \<longleftrightarrow> ys \<noteq> []" for ys
    by (cases ys) (simp_all add: opt_frac_nonempty)
  then have "float_at s \<noteq> [] \<longleftrightarrow> (\<exists>r \<in> set (opt_minus s). digits1 r \<noteq> [])"
    unfolding float_at_def by simp
  also have "\<dots> \<longleftrightarrow> (s \<noteq> [] \<and> (digit (hd s) \<or> (hd s = CHR ''-'' \<and> tl s \<noteq> [] \<and> digit (hd (tl s)))))"
    by (cases s) (auto simp: digits1_nonempty digit_def)
  finally show ?thesis .
qed

text \<open>Without anchors, the test succeeds exactly on the values that contain a digit.\<close>

lemma floatRegex_test_iff: "floatRegex_test s \<longleftrightarrow> (\<exists>c \<in> set s. digit c)"
proof (induction s)
  case Nil
  show ?case by (simp add: float_at_nonempty)
next
  case (Cons c r)
  show ?case
  proof (cases "digit c")
    case True
    then show ?thesis by (simp add: float_at_nonempty)
  next
    case False
    have "float_at (c # r) \<noteq> [] \<Longrightarrow> \<exists>d \<in> set r. digit d"
      using False by (cases r) (auto simp: float_at_nonempty)
    with False Cons show ?thesis by auto
  qed
qed

text \<open>The parameter loop throws exactly when a supplied value contains a digit.\<close>

lemma push_params_fails:
  "(\<exists>e. push_params rawParams ps args = Inl e) \<longleftrightarrow>
     (\<exists>p \<in> set ps. \<exists>text value. supplied_value rawParams (p_name p) = Some (text, value)
         \<and> (\<exists>c \<in> set text. digit c))"
  by (induction ps arbitrary: args) (auto simp: floatRegex_test_iff split: option.splits)


lemmas obj_simps = obj_get_def obj_has_def obj_delete_def

text \<open>
  C1. The claim asks that a supplied value matching the numeric grammar be passed to the
  spatial query and that the runner fail only on a supplied value outside the grammar.
  The code does the opposite (line 227 throws when the test succeeds): for the declared
  parameter \<open>arg1\<close>, the supplied numeric literal \<open>0.5\<close> makes the runner fail with the
  invalid-parameter error before any query is sent, and the supplied value \<open>abc\<close>,
  which is no numeric literal, is passed to the spatial query as its third argument.
\<close>

theorem C1_numeric_value_rejected:
  "strict_numeric ''0.5''
   \<and> supplied req_numeric_param \<lparr> p_name = Some ''arg1'', p_default = JNum 0.001 \<rparr>
   \<and> runSqlQuery demo_env demo_state ''geoshape'' [JStr ''Q1''] None req_numeric_param
       = (Inl (Err ''Invalid value for param %s'' [JStr ''arg1'']), demo_state)
   \<and> \<not> strict_numeric ''abc''
   \<and> snd (runSqlQuery demo_env demo_state ''geoshape'' [JStr ''Q1''] None req_text_param)
       = log_call (Query (JStr ''SELECT id, data FROM $1~ WHERE id IN ($2:csv)'')
                    [JStr ''wikidata_relation_polygon'', JArr [JStr ''Q1''], JStr ''abc''])
           demo_state"
  by (simp add: strict_numeric_def supplied_def supplied_value_def float_at_def digit_def
      runSqlQuery_def lookup_template_def object_prototype_def object_prototype_text_def
      demo_state_def demo_config_def req_numeric_param_def req_text_param_def)

section \<open>Properties of the graph query runner\<close>

text \<open>
  C8. With no explicit query (none given, or the empty string): for the point kind and a
  non-empty id list the runner sends one request to the graph-query endpoint whose query
  selects \<open>?id\<close> and \<open>?geo\<close> for exactly the ids of the list, each written \<open>wd:\<close>id in a
  \<open>VALUES\<close> block, through the configured coordinate predicate; for any other kind, or
  an empty id list, it returns the empty row list and leaves the state as it was: no
  call is made.
\<close>

theorem C8_default_query:
  assumes "\<not> truthy_str query"
  shows "(type = ''geopoint'' \<and> ids \<noteq> [] \<longrightarrow>
            st_calls (snd (runWikidataQuery env st type query ids customIdColumn xClientIp)) =
              st_calls st @
              [Get \<lparr> g_uri = wikidataQueryService (st_config st), g_format = ''json'',
                     g_query = ''SELECT ?id ?geo WHERE { VALUES ?id { ''
                        @ join '' '' (map (\<lambda>i. ''wd:'' @ i) ids)
                        @ '' } ?id '' @ coordinatePredicateId (st_config st) @ '' ?geo }'',
                     g_headers = obj_set ''X-Client-IP'' (opt_val xClientIp)
                                   (sparqlHeaders (st_config st)) \<rparr>])
       \<and> (type \<noteq> ''geopoint'' \<or> ids = [] \<longrightarrow>
            runWikidataQuery env st type query ids customIdColumn xClientIp = (Inr [], st))"
  using assms
  by (auto simp: runWikidataQuery_def createPointsSparqlQuery_def Let_def log_call_def
      split: sum.splits)

theorem C8_default_query_witness:
  "st_calls (snd (runWikidataQuery demo_env demo_state ''geopoint'' None [''Q1'', ''Q2''] None None)) =
     [Get \<lparr> g_uri = Some ''https://query.wikidata.org/sparql'', g_format = ''json'',
            g_query = ''SELECT ?id ?geo WHERE { VALUES ?id { wd:Q1 wd:Q2 } ?id wdt:P625 ?geo }'',
            g_headers = [(''User-Agent'', JStr ''kartotherian''), (''X-Client-IP'', JUndefined)] \<rparr>]
   \<and> runWikidataQuery demo_env demo_state ''geoshape'' None [''Q1'', ''Q2''] None None
       = (Inr [], demo_state)"
proof -
  have q: "\<not> truthy_str None" by simp
  show ?thesis
    using C8_default_query [OF q, of "''geopoint''" "[''Q1'', ''Q2'']" demo_env demo_state None None]
      C8_default_query [OF q, of "''geoshape''" "[''Q1'', ''Q2'']" demo_env demo_state None None]
    by (simp add: demo_state_def demo_config_def)
qed

text \<open>
  C2. The claim asks that \<open>execute\<close> leave the configuration object as it was. It does
  not: for a point request with one id and the client address \<open>203.0.113.7\<close>,
  \<open>config.sparqlHeaders\<close> holds one key before the request and two after it; the
  graph-query stage has written \<open>X-Client-IP\<close> into it.
\<close>

theorem C2_config_headers_changed:
  "GeoShapes ''geopoint'' req_point demo_config = Inr demo_point_request
   \<and> sparqlHeaders (st_config demo_state) = [(''User-Agent'', JStr ''kartotherian'')]
   \<and> sparqlHeaders (st_config (snd (execute demo_env demo_state demo_point_request
        (Some ''203.0.113.7'') False)))
       = [(''User-Agent'', JStr ''kartotherian''), (''X-Client-IP'', JStr ''203.0.113.7'')]"
  by (simp add: GeoShapes_def parseParams_def req_point_def demo_config_def demo_point_request_def
      digit_def demo_state_def execute_def runWikidataQuery_def createPointsSparqlQuery_def
      log_call_def demo_env_def readQueryResult_def startsWith_def demo_binding_def
      processResultRow_def obj_simps defaultIdColumn_def geoColumn_def demo_parse_def
      runSqlQuery_def expandProperties_def placeholder_def canonical_key_def
      simpleStyleProperties_def readSanitized_def demo_json_def demo_sanitized_text_def
      demo_polygon_text_def wrapResult_def assembleFeatures_def pointFeatures_def
      pointFeature_def resolve_def pointGeometry_def strict_eq_def Let_def
      get_in_def has_in_def object_prototype_def object_prototype_text_def)

lemma runWikidataQuery_config:
  "st_config (snd (runWikidataQuery env st type query ids c ip)) = st_config st
   \<or> st_config (snd (runWikidataQuery env st type query ids c ip))
       = (st_config st)\<lparr> sparqlHeaders :=
            obj_set ''X-Client-IP'' (opt_val ip) (sparqlHeaders (st_config st)) \<rparr>"
  by (auto simp: runWikidataQuery_def Let_def log_call_def split: sum.splits)

lemma runSqlQuery_config:
  "runSqlQuery env st type ids k raw = (r, st') \<Longrightarrow> st_config st' = st_config st"
  by (auto simp: runSqlQuery_def Let_def log_call_def split: sum.splits option.splits if_splits)

lemma expandProperties_config:
  "expandProperties env st rows = (r, st') \<Longrightarrow> st_config st' = st_config st"
  by (auto simp: expandProperties_def Let_def log_call_def split: sum.splits if_splits)

text \<open>
  Over a whole request the configuration changes in one place only: the header object
  of the graph-query stage.
\<close>

lemma execute_config:
  "st_config (snd (execute env st gs ip m)) = st_config st
   \<or> st_config (snd (execute env st gs ip m))
       = (st_config st)\<lparr> sparqlHeaders :=
            obj_set ''X-Client-IP'' (opt_val ip) (sparqlHeaders (st_config st)) \<rparr>"
proof -
  obtain r1 st1 where r: "runWikidataQuery env st (gs_type gs) (gs_sparqlQuery gs) (gs_ids gs)
      (gs_idColumn gs) ip = (r1, st1)"
    by (cases "runWikidataQuery env st (gs_type gs) (gs_sparqlQuery gs) (gs_ids gs) (gs_idColumn gs) ip")
  have "st_config (snd (execute env st gs ip m)) = st_config st1"
    by (auto simp: execute_def r Let_def log_call_def split: sum.splits prod.splits
        dest!: runSqlQuery_config expandProperties_config)
  with runWikidataQuery_config [of env st "gs_type gs" "gs_sparqlQuery gs" "gs_ids gs" "gs_idColumn gs" ip] r
  show ?thesis by auto
qed

lemma obj_get_obj_set: "obj_get (obj_set k v ob) k = v"
  by (induction ob) (auto simp: obj_get_def)

text \<open>An own property hides what the object inherits under the same name.\<close>

lemma get_in_own: "obj_has wd k \<Longrightarrow> get_in m wd k = obj_get wd k"
proof -
  assume "obj_has wd k"
  then obtain v where "map_of wd k = Some v"
    by (cases "map_of wd k") (auto simp: obj_has_def map_of_eq_None_iff)
  then show ?thesis by (simp add: get_in_def obj_get_def)
qed

lemma get_in_inherited:
  "\<not> obj_has wd k \<Longrightarrow> object_prototype k \<noteq> None \<Longrightarrow> \<exists>t. get_in object_prototype wd k = JNative t"
proof -
  assume "\<not> obj_has wd k" and i: "object_prototype k \<noteq> None"
  then have "map_of wd k = None"
    by (simp add: obj_has_def map_of_eq_None_iff)
  with i show ?thesis
    by (auto simp: get_in_def object_prototype_def)
qed

lemma get_in_fixed: "m k = None \<Longrightarrow> get_in m wd k = obj_get wd k"
  by (simp add: get_in_def obj_get_def split: option.splits)

lemma object_prototype_fixed:
  "object_prototype ''id'' = None" "object_prototype ''geo'' = None"
  "object_prototype ''toString'' = Some (JNative ''function toString() { [native code] }'')"
  by (simp_all add: object_prototype_def object_prototype_text_def)

lemma idColumn_of_code:
  "(if truthy_str c then the c else defaultIdColumn) = idColumn_of c"
  by (simp add: idColumn_of_def defaultIdColumn_def)

text \<open>
  A column name that the row does not have but every object inherits passes the test
  \<open>idColumn in wd\<close>; its value is a built-in, and the row fails as a row with an
  invalid id.
\<close>

lemma processResultRow_inherited:
  assumes "\<not> obj_has wd (idColumn_of c)" and "object_prototype (idColumn_of c) \<noteq> None"
  shows "processResultRow parse object_prototype wd c =
     Inl (Err ''SPARQL query result id column %j is expected to be a valid Wikidata id''
          [JStr (idColumn_of c)])"
proof -
  from get_in_inherited [OF assms] obtain t where
    "get_in object_prototype wd (idColumn_of c) = JNative t" by blast
  with assms(2) show ?thesis
    unfolding processResultRow_def idColumn_of_code Let_def
    by (simp add: has_in_def obj_get_obj_set)
qed

text \<open>
  C7. For every row of the graph-query result, processing succeeds exactly when the
  configured id column is present in the row, its value is URI-typed and the value
  parses to a truthy id. When the column is absent, and its name is not one that every
  object inherits, processing fails with the missing-column error, whose message ends
  with the hint to use \<open>idcolumn\<close> exactly when the column name is the default and not
  user-supplied. When the column is present but its value parses to nothing, or is a
  value other than \<open>undefined\<close> and \<open>null\<close> that is not URI-typed, processing fails with
  the invalid-id error naming the column; that message does not depend on where the
  column name comes from.
\<close>

theorem C7_id_column:
  "(\<not> obj_has wd (idColumn_of c) \<and> object_prototype (idColumn_of c) = None \<longrightarrow>
      processResultRow parse object_prototype wd c =
        Inl (Err (''SPARQL query result does not contain %j column.''
               @ (if truthy_str c then []
                  else '' Use `idcolumn` argument to specify column name, or change the query to return `id` column.''))
             [JStr (idColumn_of c)]))
   \<and> (obj_has wd (idColumn_of c) \<and> \<not> truthy (parse (obj_get wd (idColumn_of c)) True) \<longrightarrow>
      processResultRow parse object_prototype wd c =
        Inl (Err ''SPARQL query result id column %j is expected to be a valid Wikidata id''
             [JStr (idColumn_of c)]))
   \<and> (obj_has wd (idColumn_of c) \<and> obj_get wd (idColumn_of c) \<noteq> JUndefined
        \<and> obj_get wd (idColumn_of c) \<noteq> JNull \<and> \<not> uri_typed (obj_get wd (idColumn_of c)) \<longrightarrow>
      processResultRow parse object_prototype wd c =
        Inl (Err ''SPARQL query result id column %j is expected to be a valid Wikidata id''
             [JStr (idColumn_of c)]))
   \<and> ((\<exists>r. processResultRow parse object_prototype wd c = Inr r) \<longleftrightarrow>
        obj_has wd (idColumn_of c) \<and> truthy (parse (obj_get wd (idColumn_of c)) True)
        \<and> uri_typed (obj_get wd (idColumn_of c)))"
proof (cases "obj_has wd (idColumn_of c)")
  case True
  have t: "obj_get wd (idColumn_of c) \<noteq> JUndefined \<Longrightarrow> obj_get wd (idColumn_of c) \<noteq> JNull \<Longrightarrow>
       \<exists>t. js_prop (obj_get wd (idColumn_of c)) ''type'' = Inr t"
    by (cases "obj_get wd (idColumn_of c)") simp_all
  have u: "\<not> uri_typed JUndefined" "\<not> uri_typed JNull"
    by (simp_all add: uri_typed_def)
  from True have h: "has_in object_prototype wd (idColumn_of c)"
    by (simp add: has_in_def)
  have v: "get_in object_prototype wd (idColumn_of c) = obj_get wd (idColumn_of c)"
    using True by (rule get_in_own)
  have unfold: "processResultRow parse object_prototype wd c =
      (if \<not> truthy (parse (obj_get wd (idColumn_of c)) True)
       then Inl (Err ''SPARQL query result id column %j is expected to be a valid Wikidata id''
                 [JStr (idColumn_of c)])
       else case js_prop (obj_get wd (idColumn_of c)) ''type'' of
           Inl e \<Rightarrow> Inl e
         | Inr t \<Rightarrow>
             if t \<noteq> JStr ''uri''
             then Inl (Err ''SPARQL query result id column %j is expected to be a valid Wikidata id''
                       [JStr (idColumn_of c)])
             else Inr (if truthy (get_in object_prototype wd geoColumn)
                       then obj_set ''coordinate'' (parse (get_in object_prototype wd geoColumn) True)
                              (obj_set ''id'' (parse (obj_get wd (idColumn_of c)) True)
                                 (obj_delete (idColumn_of c) wd))
                       else obj_set ''id'' (parse (obj_get wd (idColumn_of c)) True)
                              (obj_delete (idColumn_of c) wd)))"
    unfolding processResultRow_def idColumn_of_code Let_def v
    by (simp add: obj_get_obj_set h)
  show ?thesis
    using True t u
    by (auto simp: unfold uri_typed_def split: sum.splits)
next
  case False
  show ?thesis
  proof (cases "object_prototype (idColumn_of c) = None")
    case True
    with False have "\<not> has_in object_prototype wd (idColumn_of c)"
      by (simp add: has_in_def)
    with False show ?thesis
      unfolding processResultRow_def idColumn_of_code Let_def
      by auto
  next
    case inherited: False
    from processResultRow_inherited [OF False inherited, of parse] False inherited
    show ?thesis by simp
  qed
qed

theorem C7_id_column_witness:
  "processResultRow demo_parse object_prototype uri_id_row None =
     Inl (Err ''SPARQL query result does not contain %j column. Use `idcolumn` argument to specify column name, or change the query to return `id` column.'' [JStr ''id''])
   \<and> processResultRow demo_parse object_prototype uri_id_row (Some ''name'') =
     Inl (Err ''SPARQL query result does not contain %j column.'' [JStr ''name''])
   \<and> processResultRow demo_parse object_prototype literal_id_row None =
     Inl (Err ''SPARQL query result id column %j is expected to be a valid Wikidata id'' [JStr ''id''])
   \<and> (\<exists>r. processResultRow demo_parse object_prototype uri_id_row (Some ''item'') = Inr r)"
proof -
  have a: "\<not> obj_has uri_id_row (idColumn_of None) \<and> object_prototype (idColumn_of None) = None"
    "\<not> obj_has uri_id_row (idColumn_of (Some ''name''))
      \<and> object_prototype (idColumn_of (Some ''name'')) = None"
    by (simp_all add: obj_has_def uri_id_row_def idColumn_of_def object_prototype_def
        object_prototype_text_def)
  have b: "obj_has literal_id_row (idColumn_of None)"
    "obj_get literal_id_row (idColumn_of None) \<noteq> JUndefined"
    "obj_get literal_id_row (idColumn_of None) \<noteq> JNull"
    "\<not> uri_typed (obj_get literal_id_row (idColumn_of None))"
    by (simp_all add: obj_has_def obj_get_def literal_id_row_def idColumn_of_def uri_typed_def)
  have c: "obj_has uri_id_row (idColumn_of (Some ''item''))"
    "truthy (demo_parse (obj_get uri_id_row (idColumn_of (Some ''item''))) True)"
    "uri_typed (obj_get uri_id_row (idColumn_of (Some ''item'')))"
    by (simp_all add: obj_has_def obj_get_def uri_id_row_def idColumn_of_def uri_typed_def demo_parse_def)
  show ?thesis
    using C7_id_column [of uri_id_row None demo_parse]
      C7_id_column [of uri_id_row "Some ''name''" demo_parse]
      C7_id_column [of literal_id_row None demo_parse]
      C7_id_column [of uri_id_row "Some ''item''" demo_parse] a b c
    by (simp add: idColumn_of_def)
qed

text \<open>
  The claim as stated fails for a present id column holding a literal: whether the
  request names the column \<open>id\<close> itself or leaves the default, the error is the same.
\<close>

theorem C7_counterexample:
  "processResultRow demo_parse object_prototype literal_id_row (Some ''id'') =
     Inl (Err ''SPARQL query result id column %j is expected to be a valid Wikidata id'' [JStr ''id''])
   \<and> processResultRow demo_parse object_prototype literal_id_row None =
     Inl (Err ''SPARQL query result id column %j is expected to be a valid Wikidata id'' [JStr ''id''])"
  by (simp add: processResultRow_def literal_id_row_def demo_parse_def obj_simps defaultIdColumn_def
      has_in_def get_in_def Let_def)

section \<open>Properties of the property sanitizer\<close>

lemma map_of_obj_set: "map_of (obj_set k v ob) = (map_of ob)(k \<mapsto> v)"
  by (induction ob) auto

lemma obj_set_append: "k \<notin> fst ` set ob \<Longrightarrow> obj_set k v ob = ob @ [(k, v)]"
  by (induction ob) auto

text \<open>The loop writes the kept columns in order; a later column wins over an earlier one
  with the same canonical key.\<close>

lemma transformProps_map_of:
  "map_of (transformProps parse cols acc) =
     map_of acc ++ map_of (rev (map (\<lambda>(k, v). (canonical_key k, parse v False))
                                   (filter (\<lambda>(k, v). truthy v) cols)))"
proof (induction cols arbitrary: acc)
  case Nil
  show ?case by simp
next
  case (Cons kv cols)
  obtain k v where kv: "kv = (k, v)" by (cases kv)
  show ?case
  proof (cases "truthy v")
    case True
    have "map_of (transformProps parse (kv # cols) acc) =
          map_of (transformProps parse cols (obj_set (canonical_key k) (parse v False) acc))"
      using True by (simp add: kv)
    also have "\<dots> = map_of (obj_set (canonical_key k) (parse v False) acc)
            ++ map_of (rev (map (\<lambda>(k, v). (canonical_key k, parse v False))
                                   (filter (\<lambda>(k, v). truthy v) cols)))"
      by (rule Cons.IH)
    also have "\<dots> = (map_of acc ++ [canonical_key k \<mapsto> parse v False])
            ++ map_of (rev (map (\<lambda>(k, v). (canonical_key k, parse v False))
                                   (filter (\<lambda>(k, v). truthy v) cols)))"
      by (simp only: map_of_obj_set map_add_upd map_add_empty)
    also have "\<dots> = map_of acc
            ++ map_of (rev (map (\<lambda>(k, v). (canonical_key k, parse v False))
                                   (filter (\<lambda>(k, v). truthy v) (kv # cols))))"
      using True by (simp add: kv)
    finally show ?thesis .
  next
    case False
    then show ?thesis by (simp add: kv Cons)
  qed
qed

lemma transformProps_append:
  "distinct (map fst (acc @ map (\<lambda>(k, v). (canonical_key k, parse v False))
                                   (filter (\<lambda>(k, v). truthy v) cols))) \<Longrightarrow>
   transformProps parse cols acc =
     acc @ map (\<lambda>(k, v). (canonical_key k, parse v False)) (filter (\<lambda>(k, v). truthy v) cols)"
proof (induction cols arbitrary: acc)
  case Nil
  show ?case by simp
next
  case (Cons kv cols)
  obtain k v where kv: "kv = (k, v)" by (cases kv)
  show ?case
  proof (cases "truthy v")
    case True
    from Cons.prems True have notin: "canonical_key k \<notin> fst ` set acc"
      by (auto simp: kv)
    from Cons.prems True have
      "distinct (map fst ((acc @ [(canonical_key k, parse v False)])
         @ map (\<lambda>(k, v). (canonical_key k, parse v False)) (filter (\<lambda>(k, v). truthy v) cols)))"
      by (simp add: kv)
    from Cons.IH [OF this] True notin show ?thesis
      by (simp add: kv obj_set_append)
  next
    case False
    with Cons show ?thesis by (simp add: kv)
  qed
qed

lemma cleaned_columns_alt:
  "cleaned_columns parse row =
     map (\<lambda>(k, v). (canonical_key k, parse v False))
       (filter (\<lambda>(k, v). truthy v) (obj_delete ''id'' row))"
  by (simp add: cleaned_columns_def obj_delete_def case_prod_unfold conj_commute)

text \<open>
  What the sanitizer posts. For an empty list of raw rows it returns \<open>undefined\<close> and
  makes no call; for a non-empty list it sends one request whose text holds one
  placeholder feature per raw row, in order. The placeholder of a row carries the row's
  id, and as properties the row's non-id columns that have a truthy value, each under
  the key \<open>canonical_key\<close> gives and with its value normalised by \<open>wd-type-parser\<close>: as a
  mapping always (the later of two columns with the same key wins), and as the very
  list of these columns when their keys differ. The six underscore-form simplestyle
  names go to their hyphenated forms, and a name that is neither one of the six nor a
  member of \<open>Object.prototype\<close> is kept.
\<close>

lemma placeholder_properties:
  "expandProperties env st [] = (Inr None, st)
   \<and> (rawProperties \<noteq> [] \<longrightarrow>
        st_calls (snd (expandProperties env st rawProperties)) =
          st_calls st @
          [Post \<lparr> po_uri = mwapi (st_config st), po_format = ''json'', po_formatversion = 2,
                  po_action = ''sanitize-mapdata'',
                  po_text = map (placeholder (parseWikidataValue env)) rawProperties,
                  po_headers = mwapiHeaders (st_config st) \<rparr>])
   \<and> length (map (placeholder (parseWikidataValue env)) rawProperties) = length rawProperties
   \<and> f_id (placeholder parse row) = obj_get row ''id''
   \<and> map_of (f_properties (placeholder parse row)) = map_of (rev (cleaned_columns parse row))
   \<and> (distinct (map fst (cleaned_columns parse row)) \<longrightarrow>
        f_properties (placeholder parse row) = cleaned_columns parse row)
   \<and> map canonical_key [''fill_opacity'', ''marker_color'', ''marker_size'', ''marker_symbol'',
                          ''stroke_opacity'', ''stroke_width'']
       = [''fill-opacity'', ''marker-color'', ''marker-size'', ''marker-symbol'',
          ''stroke-opacity'', ''stroke-width'']
   \<and> (key \<notin> fst ` set simpleStyleProperties \<and> object_prototype key = None \<longrightarrow>
        canonical_key key = key)"
proof -
  have 1: "expandProperties env st [] = (Inr None, st)"
    by (simp add: expandProperties_def)
  have 2: "rawProperties \<noteq> [] \<longrightarrow>
        st_calls (snd (expandProperties env st rawProperties)) =
          st_calls st @
          [Post \<lparr> po_uri = mwapi (st_config st), po_format = ''json'', po_formatversion = 2,
                  po_action = ''sanitize-mapdata'',
                  po_text = map (placeholder (parseWikidataValue env)) rawProperties,
                  po_headers = mwapiHeaders (st_config st) \<rparr>]"
    by (auto simp: expandProperties_def Let_def log_call_def split: sum.splits)
  have 3: "map_of (f_properties (placeholder parse row)) = map_of (rev (cleaned_columns parse row))"
    by (simp add: placeholder_def transformProps_map_of cleaned_columns_alt)
  have 4: "distinct (map fst (cleaned_columns parse row)) \<longrightarrow>
        f_properties (placeholder parse row) = cleaned_columns parse row"
    using transformProps_append [of "[]" parse "obj_delete ''id'' row"]
    by (simp add: placeholder_def cleaned_columns_alt)
  have 5: "map canonical_key [''fill_opacity'', ''marker_color'', ''marker_size'', ''marker_symbol'',
                          ''stroke_opacity'', ''stroke_width'']
       = [''fill-opacity'', ''marker-color'', ''marker-size'', ''marker-symbol'',
          ''stroke-opacity'', ''stroke-width'']"
    by (simp add: canonical_key_def simpleStyleProperties_def)
  have 6: "key \<notin> fst ` set simpleStyleProperties \<and> object_prototype key = None \<longrightarrow>
        canonical_key key = key"
  proof
    assume k: "key \<notin> fst ` set simpleStyleProperties \<and> object_prototype key = None"
    then have "map_of simpleStyleProperties key = None"
      by (simp add: map_of_eq_None_iff)
    moreover from k have "map_of object_prototype_text key = None"
      by (simp add: object_prototype_def)
    ultimately show "canonical_key key = key"
      by (simp add: canonical_key_def)
  qed
  have 7: "f_id (placeholder parse row) = obj_get row ''id''"
    by (simp add: placeholder_def)
  from 1 2 3 4 5 6 7 show ?thesis by simp
qed

lemma placeholder_example:
  "f_properties (placeholder demo_parse styled_row) =
     [(''marker-color'', JStr ''f00''), (''name'', JStr ''Berlin'')]"
  by (simp add: placeholder_def styled_row_def obj_delete_def canonical_key_def
      simpleStyleProperties_def object_prototype_text_def demo_parse_def obj_get_def)

text \<open>
  C9. The claim asks that the properties of a placeholder be the row's non-id columns,
  with the underscore-form simplestyle keys in their hyphenated form; the comment at
  lines 255 to 257 says the same of the code. The lookup
  \<open>simpleStyleProperties[ key ] || key\<close> of line 258 finds what the table inherits as
  well: for a row with a truthy column named \<open>constructor\<close>, the placeholder that is
  posted to the sanitization endpoint has no property \<open>constructor\<close>; it carries the
  value under the key \<open>function Object() { [native code] }\<close>.
\<close>

theorem C9_inherited_key_renamed:
  "canonical_key ''constructor'' = ''function Object() { [native code] }''
   \<and> cleaned_columns demo_parse constructor_row
       = [(''function Object() { [native code] }'', JStr ''Bob'')]
   \<and> st_calls (snd (expandProperties demo_env demo_state [constructor_row])) =
       [Post \<lparr> po_uri = ''https://en.wikipedia.org/w/api.php'', po_format = ''json'',
               po_formatversion = 2, po_action = ''sanitize-mapdata'',
               po_text =
                 [\<lparr> f_type = ''Feature'', f_id = JStr ''Q42'',
                    f_properties = [(''function Object() { [native code] }'', JStr ''Bob'')],
                    f_geometry = JObj [(''type'', JStr ''Point''),
                                       (''coordinates'', JArr [JNum 0, JNum 0])] \<rparr>],
               po_headers = [] \<rparr>]"
proof -
  have k: "canonical_key ''constructor'' = ''function Object() { [native code] }''"
    by (simp add: canonical_key_def simpleStyleProperties_def object_prototype_text_def)
  have c: "cleaned_columns demo_parse constructor_row
       = [(''function Object() { [native code] }'', JStr ''Bob'')]"
    by (simp add: cleaned_columns_def constructor_row_def k demo_parse_def obj_get_def)
  have p: "placeholder demo_parse constructor_row =
       \<lparr> f_type = ''Feature'', f_id = JStr ''Q42'',
         f_properties = [(''function Object() { [native code] }'', JStr ''Bob'')],
         f_geometry = JObj [(''type'', JStr ''Point''),
                            (''coordinates'', JArr [JNum 0, JNum 0])] \<rparr>"
    by (simp add: placeholder_def constructor_row_def obj_delete_def obj_get_def k demo_parse_def)
  have e: "st_calls (snd (expandProperties demo_env demo_state [constructor_row])) =
       [Post \<lparr> po_uri = ''https://en.wikipedia.org/w/api.php'', po_format = ''json'',
               po_formatversion = 2, po_action = ''sanitize-mapdata'',
               po_text = [placeholder demo_parse constructor_row],
               po_headers = [] \<rparr>]"
    by (auto simp: expandProperties_def Let_def log_call_def demo_env_def demo_state_def
        demo_config_def split: sum.splits)
  from k c e show ?thesis by (simp add: p)
qed

section \<open>Properties of the result assembler\<close>

lemma findIndex_Some: "findIndex P xs = Some i \<Longrightarrow> i < length xs \<and> P (xs ! i)"
  by (induction xs arbitrary: i) (auto split: if_splits)

lemma findIndex_None: "findIndex P xs = None \<longleftrightarrow> (\<forall>x \<in> set xs. \<not> P x)"
  by (induction xs) auto

lemma findIndex_rel: "list_all2 (\<lambda>x y. P x = Q y) xs ys \<Longrightarrow> findIndex P xs = findIndex Q ys"
  by (induction rule: list_all2_induct) auto

lemma find_findIndex: "find P xs = map_option (\<lambda>i. xs ! i) (findIndex P xs)"
  by (induction xs) (auto simp: option.map_comp o_def)

lemma obj_get_deleted: "obj_get (obj_delete k p) k = JUndefined"
proof -
  have "map_of (filter (\<lambda>kv. fst kv \<noteq> k) p) k = None"
    by (induction p) auto
  then show ?thesis by (simp add: obj_get_def obj_delete_def)
qed

lemma obj_delete_idem: "obj_delete k (obj_delete k p) = obj_delete k p"
  by (simp add: obj_delete_def)

lemma sameId_deleted: "b \<noteq> JUndefined \<Longrightarrow> \<not> sameId b (obj_delete ''id'' p)"
  by (auto simp: sameId_def strict_eq_def obj_get_deleted)

lemma sameId_id: "sameId b p \<Longrightarrow> obj_get p ''id'' = b"
  by (simp add: sameId_def strict_eq_def)

text \<open>
  While geometry rows with defined ids are processed, a row of the store can only lose
  its \<open>id\<close>, and a row without \<open>id\<close> is never found again.
\<close>

lemma consumed_sameId:
  "consumed S c p \<Longrightarrow> b \<noteq> JUndefined \<Longrightarrow> sameId b c \<Longrightarrow> c = p"
  by (auto simp: consumed_def sameId_deleted)

lemma consumed_lookup:
  assumes "list_all2 (consumed S) cur ps" "b \<noteq> JUndefined" "b \<notin> S"
  shows "findIndex (sameId b) cur = findIndex (sameId b) ps"
proof (rule findIndex_rel)
  have "consumed S c p \<Longrightarrow> sameId b c = sameId b p" for c p
    using assms(2,3) by (auto simp: consumed_def sameId_deleted dest: sameId_id)
  then show "list_all2 (\<lambda>x y. sameId b x = sameId b y) cur ps"
    using assms(1) by (auto elim: list_all2_mono)
qed

lemma consumed_mono: "consumed S c p \<Longrightarrow> consumed (insert b S) c p"
  by (auto simp: consumed_def)

lemma attach_consumed:
  assumes "list_all2 (consumed S) cur ps" "b \<noteq> JUndefined"
      and "attachProperties b (Some cur) = (pr, st)"
  shows "\<exists>cur1. st = Some cur1 \<and> list_all2 (consumed (insert b S)) cur1 ps
          \<and> (\<forall>i. pr = Row i \<longrightarrow> i < length ps \<and> sameId b (ps ! i)
                  \<and> cur1 ! i = obj_delete ''id'' (ps ! i))
          \<and> (pr = Own [] \<or> (\<exists>i. pr = Row i))
          \<and> (\<forall>c \<in> set cur. \<not> sameId b c) = (pr = Own [])"
proof (cases "findIndex (sameId b) cur")
  case None
  have "list_all2 (consumed (insert b S)) cur ps"
    using assms(1) by (rule list_all2_mono) (rule consumed_mono)
  moreover from None have "\<forall>c \<in> set cur. \<not> sameId b c"
    by (simp add: findIndex_None)
  ultimately show ?thesis
    using None assms(3) by (auto simp: attachProperties_def)
next
  case (Some i)
  from findIndex_Some [OF Some] have i: "i < length cur" "sameId b (cur ! i)" by auto
  from assms(1) have len: "length cur = length ps" by (rule list_all2_lengthD)
  from assms(1) i(1) have "consumed S (cur ! i) (ps ! i)" by (rule list_all2_nthD)
  then have eq: "cur ! i = ps ! i" using assms(2) i(2) by (rule consumed_sameId)
  have "consumed (insert b S) (obj_delete ''id'' (cur ! i)) (ps ! i)"
    using eq i(2) by (auto simp: consumed_def dest: sameId_id)
  then have "list_all2 (consumed (insert b S)) (cur[i := obj_delete ''id'' (cur ! i)]) ps"
    using assms(1) i(1) len
    by (auto simp: list_all2_conv_all_nth nth_list_update intro: consumed_mono)
  moreover have "\<exists>c \<in> set cur. sameId b c" using i by (auto simp: set_conv_nth)
  ultimately show ?thesis
    using assms(3) Some i eq len by (auto simp: attachProperties_def)
qed

lemma lineFeatures_Cons:
  assumes "lineFeatures parse (row # rows) st = Inr (fs, st')"
  obtains g pr st1 fs' where "parse (row_data row) = Some g"
    and "attachProperties (row_id row) st = (pr, st1)"
    and "lineFeatures parse rows st1 = Inr (fs', st')"
    and "fs = \<lparr> f_type = ''Feature'', f_id = row_id row, f_properties = pr, f_geometry = g \<rparr> # fs'"
  using assms by (auto split: option.splits prod.splits sum.splits)

lemma lineFeatures_length:
  "lineFeatures parse rows st = Inr (fs, st') \<Longrightarrow> length fs = length rows"
proof (induction rows arbitrary: st fs)
  case Nil
  then show ?case by simp
next
  case (Cons row rows)
  from Cons.prems show ?case
    by (rule lineFeatures_Cons) (auto dest: Cons.IH)
qed

lemma attach_persist:
  assumes "attachProperties b (Some cur) = (pr, st)"
  shows "\<exists>cur1. st = Some cur1 \<and> length cur1 = length cur
          \<and> (\<forall>i<length cur. cur1 ! i = cur ! i \<or> cur1 ! i = obj_delete ''id'' (cur ! i))"
proof (cases "findIndex (sameId b) cur")
  case None
  with assms show ?thesis by (auto simp: attachProperties_def)
next
  case (Some j)
  from findIndex_Some [OF Some] have "j < length cur" by simp
  with assms Some show ?thesis
    by (auto simp: attachProperties_def nth_list_update)
qed

lemma lineFeatures_persist:
  "lineFeatures parse rows (Some cur) = Inr (fs, st') \<Longrightarrow>
     \<exists>fin. st' = Some fin \<and> length fin = length cur
       \<and> (\<forall>i<length cur. fin ! i = cur ! i \<or> fin ! i = obj_delete ''id'' (cur ! i))"
proof (induction rows arbitrary: cur fs)
  case Nil
  then show ?case by auto
next
  case (Cons row rows)
  from Cons.prems show ?case
  proof (rule lineFeatures_Cons)
    fix g pr st1 fs'
    assume a: "attachProperties (row_id row) (Some cur) = (pr, st1)"
      and r: "lineFeatures parse rows st1 = Inr (fs', st')"
    from attach_persist [OF a] obtain cur1 where c1: "st1 = Some cur1" "length cur1 = length cur"
      "\<forall>i<length cur. cur1 ! i = cur ! i \<or> cur1 ! i = obj_delete ''id'' (cur ! i)" by blast
    from Cons.IH [OF r [unfolded c1(1)]] obtain fin where f: "st' = Some fin" "length fin = length cur1"
      "\<forall>i<length cur1. fin ! i = cur1 ! i \<or> fin ! i = obj_delete ''id'' (cur1 ! i)" by blast
    show ?thesis
      using c1 f by (auto simp: obj_delete_idem) (metis obj_delete_idem)+
  qed
qed


lemma attach_lookup:
  assumes "list_all2 (consumed S) cur ps" "b \<noteq> JUndefined" "b \<notin> S"
      and "attachProperties b (Some cur) = (pr, st)"
  shows "pr = (case findIndex (sameId b) ps of None \<Rightarrow> Own [] | Some i \<Rightarrow> Row i)"
  using assms(4) consumed_lookup [OF assms(1-3)]
  by (auto simp: attachProperties_def split: option.splits)

text \<open>
  The main invariant: every reference handed out points to a row that had the id of the
  geometry row and has lost it in the final store, and the first geometry row with a
  given id finds what it would find in the untouched property rows.
\<close>

lemma lineFeatures_consumed:
  assumes "list_all2 (consumed S) cur ps"
      and "\<forall>row \<in> set rows. row_id row \<noteq> JUndefined"
      and "lineFeatures parse rows (Some cur) = Inr (fs, st')"
  shows "\<exists>fin. st' = Some fin \<and> length fin = length ps
     \<and> (\<forall>k<length rows. \<forall>i. f_properties (fs ! k) = Row i \<longrightarrow>
           i < length ps \<and> sameId (row_id (rows ! k)) (ps ! i)
           \<and> fin ! i = obj_delete ''id'' (ps ! i))
     \<and> (\<forall>k<length rows. row_id (rows ! k) \<notin> S \<union> row_id ` set (take k rows) \<longrightarrow>
           f_properties (fs ! k) =
             (case findIndex (sameId (row_id (rows ! k))) ps of
                None \<Rightarrow> Own [] | Some i \<Rightarrow> Row i))
     \<and> (\<forall>k<length rows. f_properties (fs ! k) = Own [] \<or> (\<exists>i. f_properties (fs ! k) = Row i))
     \<and> (\<forall>k<length rows. f_type (fs ! k) = ''Feature'' \<and> f_id (fs ! k) = row_id (rows ! k)
           \<and> parse (row_data (rows ! k)) = Some (f_geometry (fs ! k)))"
  using assms
proof (induction rows arbitrary: cur S fs)
  case Nil
  then show ?case by (auto dest: list_all2_lengthD)
next
  case (Cons row rows)
  from Cons.prems(3) show ?case
  proof (rule lineFeatures_Cons)
    fix g pr st1 fs'
    assume g: "parse (row_data row) = Some g"
      and a: "attachProperties (row_id row) (Some cur) = (pr, st1)"
      and r: "lineFeatures parse rows st1 = Inr (fs', st')"
      and fs: "fs = \<lparr> f_type = ''Feature'', f_id = row_id row, f_properties = pr, f_geometry = g \<rparr> # fs'"
    from Cons.prems(2) have b: "row_id row \<noteq> JUndefined"
      and rest: "\<forall>row \<in> set rows. row_id row \<noteq> JUndefined" by auto
    from attach_consumed [OF Cons.prems(1) b a] obtain cur1 where
      c1: "st1 = Some cur1" "list_all2 (consumed (insert (row_id row) S)) cur1 ps"
        "\<forall>i. pr = Row i \<longrightarrow> i < length ps \<and> sameId (row_id row) (ps ! i)
                  \<and> cur1 ! i = obj_delete ''id'' (ps ! i)"
        "pr = Own [] \<or> (\<exists>i. pr = Row i)"
      by blast
    from Cons.IH [OF c1(2) rest r [unfolded c1(1)]] obtain fin where
      f: "st' = Some fin" "length fin = length ps"
        "\<forall>k<length rows. \<forall>i. f_properties (fs' ! k) = Row i \<longrightarrow>
           i < length ps \<and> sameId (row_id (rows ! k)) (ps ! i)
           \<and> fin ! i = obj_delete ''id'' (ps ! i)"
        "\<forall>k<length rows. row_id (rows ! k) \<notin> insert (row_id row) S \<union> row_id ` set (take k rows) \<longrightarrow>
           f_properties (fs' ! k) =
             (case findIndex (sameId (row_id (rows ! k))) ps of
                None \<Rightarrow> Own [] | Some i \<Rightarrow> Row i)"
        "\<forall>k<length rows. f_properties (fs' ! k) = Own [] \<or> (\<exists>i. f_properties (fs' ! k) = Row i)"
        "\<forall>k<length rows. f_type (fs' ! k) = ''Feature'' \<and> f_id (fs' ! k) = row_id (rows ! k)
           \<and> parse (row_data (rows ! k)) = Some (f_geometry (fs' ! k))"
      by blast
    from c1(2) have len1: "length cur1 = length ps" by (rule list_all2_lengthD)
    from lineFeatures_persist [OF r [unfolded c1(1)]] f(1)
    have p: "\<forall>i<length cur1. fin ! i = cur1 ! i \<or> fin ! i = obj_delete ''id'' (cur1 ! i)"
      by auto
    have head: "\<forall>i. pr = Row i \<longrightarrow> fin ! i = obj_delete ''id'' (ps ! i)"
      using c1(3) p len1 by (auto simp: obj_delete_idem)
    have look: "row_id row \<notin> S \<longrightarrow>
        pr = (case findIndex (sameId (row_id row)) ps of None \<Rightarrow> Own [] | Some i \<Rightarrow> Row i)"
      using attach_lookup [OF Cons.prems(1) b _ a] by blast
    have 1: "\<forall>k<length (row # rows). \<forall>i. f_properties (fs ! k) = Row i \<longrightarrow>
           i < length ps \<and> sameId (row_id ((row # rows) ! k)) (ps ! i)
           \<and> fin ! i = obj_delete ''id'' (ps ! i)"
    proof (intro allI impI)
      fix k i assume k: "k < length (row # rows)" and pi: "f_properties (fs ! k) = Row i"
      show "i < length ps \<and> sameId (row_id ((row # rows) ! k)) (ps ! i)
           \<and> fin ! i = obj_delete ''id'' (ps ! i)"
      proof (cases k)
        case 0
        with pi fs c1(3) head show ?thesis by simp
      next
        case (Suc k')
        with k pi fs f(3) show ?thesis by simp
      qed
    qed
    have 2: "\<forall>k<length (row # rows).
           row_id ((row # rows) ! k) \<notin> S \<union> row_id ` set (take k (row # rows)) \<longrightarrow>
           f_properties (fs ! k) =
             (case findIndex (sameId (row_id ((row # rows) ! k))) ps of
                None \<Rightarrow> Own [] | Some i \<Rightarrow> Row i)"
    proof (intro allI impI)
      fix k assume k: "k < length (row # rows)"
        and n: "row_id ((row # rows) ! k) \<notin> S \<union> row_id ` set (take k (row # rows))"
      show "f_properties (fs ! k) =
             (case findIndex (sameId (row_id ((row # rows) ! k))) ps of
                None \<Rightarrow> Own [] | Some i \<Rightarrow> Row i)"
      proof (cases k)
        case 0
        with n fs look show ?thesis by simp
      next
        case (Suc k')
        with k n have "k' < length rows"
          "row_id (rows ! k') \<notin> insert (row_id row) S \<union> row_id ` set (take k' rows)"
          by auto
        with f(4) Suc fs show ?thesis by simp
      qed
    qed
    have 3: "\<forall>k<length (row # rows). f_properties (fs ! k) = Own [] \<or> (\<exists>i. f_properties (fs ! k) = Row i)"
      using c1(4) f(5) fs by (auto simp: nth_Cons split: nat.splits)
    have 4: "\<forall>k<length (row # rows). f_type (fs ! k) = ''Feature''
           \<and> f_id (fs ! k) = row_id ((row # rows) ! k)
           \<and> parse (row_data ((row # rows) ! k)) = Some (f_geometry (fs ! k))"
      using g f(6) fs by (auto simp: nth_Cons split: nat.splits)
    from f(1,2) 1 2 3 4 show ?thesis by blast
  qed
qed

lemma filter_le_one:
  "length (filter P xs) \<le> 1 \<Longrightarrow> i < length xs \<Longrightarrow> j < length xs \<Longrightarrow> P (xs ! i) \<Longrightarrow> P (xs ! j)
     \<Longrightarrow> i = j"
proof (induction xs arbitrary: i j)
  case Nil
  then show ?case by simp
next
  case (Cons x xs)
  show ?case
  proof (cases "P x")
    case True
    with Cons.prems(1) have "\<forall>y \<in> set xs. \<not> P y"
      by (simp add: filter_empty_conv)
    with Cons.prems(2-5) show ?thesis
      by (cases i; cases j) auto
  next
    case False
    with Cons.prems have "length (filter P xs) \<le> 1" by simp
    from Cons.IH [OF this] Cons.prems(2-5) False show ?thesis
      by (cases i; cases j) auto
  qed
qed

lemma lineFeatures_no_match:
  assumes "\<forall>c \<in> set cur. \<not> sameId b c" "b \<noteq> JUndefined"
      and "lineFeatures parse rows (Some cur) = Inr (fs, st')"
  shows "\<forall>k<length rows. row_id (rows ! k) = b \<longrightarrow> f_properties (fs ! k) = Own []"
  using assms
proof (induction rows arbitrary: cur fs)
  case Nil
  then show ?case by simp
next
  case (Cons row rows)
  from Cons.prems(3) show ?case
  proof (rule lineFeatures_Cons)
    fix g pr st1 fs'
    assume a: "attachProperties (row_id row) (Some cur) = (pr, st1)"
      and r: "lineFeatures parse rows st1 = Inr (fs', st')"
      and fs: "fs = \<lparr> f_type = ''Feature'', f_id = row_id row, f_properties = pr, f_geometry = g \<rparr> # fs'"
    from attach_persist [OF a] obtain cur1 where c1: "st1 = Some cur1" "length cur1 = length cur"
      "\<forall>i<length cur. cur1 ! i = cur ! i \<or> cur1 ! i = obj_delete ''id'' (cur ! i)" by blast
    have none1: "\<forall>c \<in> set cur1. \<not> sameId b c"
      using c1(2,3) Cons.prems(1,2) sameId_deleted [OF Cons.prems(2)]
      by (auto simp: set_conv_nth) metis
    have hd: "row_id row = b \<longrightarrow> pr = Own []"
      using a Cons.prems(1) by (auto simp: attachProperties_def findIndex_None [symmetric])
    from Cons.IH [OF none1 Cons.prems(2) r [unfolded c1(1)]] hd fs show ?thesis
      by (auto simp: nth_Cons split: nat.splits)
  qed
qed

lemma lineFeatures_later_empty:
  assumes "list_all2 (consumed S) cur ps"
      and "\<forall>row \<in> set rows. row_id row \<noteq> JUndefined"
      and "lineFeatures parse rows (Some cur) = Inr (fs, st')"
      and "length (filter (sameId b) ps) \<le> 1"
  shows "\<forall>j k. j < k \<and> k < length rows \<and> row_id (rows ! j) = b \<and> row_id (rows ! k) = b \<longrightarrow>
           f_properties (fs ! k) = Own []"
  using assms(1-3)
proof (induction rows arbitrary: cur S fs)
  case Nil
  then show ?case by simp
next
  case (Cons row rows)
  from Cons.prems(3) show ?case
  proof (rule lineFeatures_Cons)
    fix g pr st1 fs'
    assume a: "attachProperties (row_id row) (Some cur) = (pr, st1)"
      and r: "lineFeatures parse rows st1 = Inr (fs', st')"
      and fs: "fs = \<lparr> f_type = ''Feature'', f_id = row_id row, f_properties = pr, f_geometry = g \<rparr> # fs'"
    from Cons.prems(2) have b: "row_id row \<noteq> JUndefined"
      and rest: "\<forall>row \<in> set rows. row_id row \<noteq> JUndefined" by auto
    from attach_consumed [OF Cons.prems(1) b a] obtain cur1 where
      c1: "st1 = Some cur1" "list_all2 (consumed (insert (row_id row) S)) cur1 ps"
        "\<forall>i. pr = Row i \<longrightarrow> i < length ps \<and> sameId (row_id row) (ps ! i)
                  \<and> cur1 ! i = obj_delete ''id'' (ps ! i)"
        "pr = Own [] \<or> (\<exists>i. pr = Row i)"
        "(\<forall>c \<in> set cur. \<not> sameId (row_id row) c) = (pr = Own [])"
      by blast
    from c1(2) have len1: "length cur1 = length ps" by (rule list_all2_lengthD)
    have first: "\<forall>k<length rows. row_id row = b \<and> row_id (rows ! k) = b \<longrightarrow>
        f_properties (fs' ! k) = Own []"
    proof (cases "row_id row = b")
      case False
      then show ?thesis by simp
    next
      case True
      have none1: "\<forall>c \<in> set cur1. \<not> sameId b c"
      proof
        fix c assume c: "c \<in> set cur1"
        show "\<not> sameId b c"
        proof
          assume s: "sameId b c"
          from c obtain m where m: "m < length cur1" "cur1 ! m = c"
            by (auto simp: set_conv_nth)
          from c1(2) m(1) have "consumed (insert (row_id row) S) (cur1 ! m) (ps ! m)"
            by (rule list_all2_nthD)
          then have eq: "cur1 ! m = ps ! m"
            using b s m(2) True by (auto intro: consumed_sameId)
          from c1(4) show False
          proof
            assume "pr = Own []"
            with a have "st1 = Some cur" "\<forall>c \<in> set cur. \<not> sameId b c"
              using c1(5) True by (auto simp: attachProperties_def split: option.splits)
            with c1(1) c s show False by simp
          next
            assume "\<exists>i. pr = Row i"
            then obtain i where i: "pr = Row i" by blast
            with c1(3) have i3: "i < length ps" "sameId b (ps ! i)"
              "cur1 ! i = obj_delete ''id'' (ps ! i)" using True by auto
            from i3(3) b True have "\<not> sameId b (cur1 ! i)" by (simp add: sameId_deleted)
            with s m(2) have "m \<noteq> i" by auto
            moreover have "m = i"
              using assms(4) m(1) len1 i3(1,2) s m(2) eq
              by (intro filter_le_one [of "sameId b" ps]) auto
            ultimately show False by simp
          qed
        qed
      qed
      from lineFeatures_no_match [OF none1 _ r [unfolded c1(1)]] b True show ?thesis
        by auto
    qed
    from Cons.IH [OF c1(2) rest r [unfolded c1(1)]]
    have later: "\<forall>j k. j < k \<and> k < length rows \<and> row_id (rows ! j) = b \<and> row_id (rows ! k) = b \<longrightarrow>
           f_properties (fs' ! k) = Own []" .
    show ?thesis
    proof (intro allI impI)
      fix j k
      assume h: "j < k \<and> k < length (row # rows) \<and> row_id ((row # rows) ! j) = b
                 \<and> row_id ((row # rows) ! k) = b"
      then obtain k' where k': "k = Suc k'" by (cases k) auto
      show "f_properties (fs ! k) = Own []"
      proof (cases j)
        case 0
        with h k' first fs show ?thesis by simp
      next
        case (Suc j')
        with h k' later fs show ?thesis by auto
      qed
    qed
  qed
qed

lemma consumed_start: "list_all2 (consumed {}) ps ps"
  by (simp add: list_all2_same consumed_def)

lemma lineFeatures_succeeds:
  "\<forall>row \<in> set rows. parse (row_data row) \<noteq> None \<Longrightarrow>
     \<exists>fs st'. lineFeatures parse rows st = Inr (fs, st')"
proof (induction rows arbitrary: st)
  case Nil
  show ?case by simp
next
  case (Cons row rows)
  obtain pr st1 where a: "attachProperties (row_id row) st = (pr, st1)"
    by (cases "attachProperties (row_id row) st")
  from Cons.prems have "\<forall>row \<in> set rows. parse (row_data row) \<noteq> None" by simp
  from Cons.IH [OF this, of st1] obtain fs st' where "lineFeatures parse rows st1 = Inr (fs, st')"
    by blast
  with Cons.prems a show ?case by auto
qed

lemma lineFeatures_without_properties:
  "\<forall>row \<in> set rows. parse (row_data row) \<noteq> None \<Longrightarrow>
     lineFeatures parse rows None =
       Inr (map (\<lambda>row. \<lparr> f_type = ''Feature'', f_id = row_id row, f_properties = Own [],
                          f_geometry = the (parse (row_data row)) \<rparr>) rows, None)"
  by (induction rows) (auto simp: attachProperties_def)

lemma obj_get_delete_other: "k \<noteq> k' \<Longrightarrow> obj_get (obj_delete k p) k' = obj_get p k'"
proof -
  assume "k \<noteq> k'"
  then have "map_of (filter (\<lambda>kv. fst kv \<noteq> k) p) k' = map_of p k'"
    by (induction p) auto
  then show ?thesis by (simp add: obj_get_def obj_delete_def)
qed

lemma pointFeature_resolved:
  assumes "prop_key idColumn \<noteq> geoColumn"
  shows "pointFeature idColumn i value =
     (\<lparr> f_type = ''Feature'', f_id = obj_get value ''id'', f_properties = Row i,
        f_geometry = pointGeometry (obj_get value geoColumn) \<rparr>,
      f_properties (spec_point_feature idColumn value))"
proof -
  have "''id'' \<noteq> geoColumn" by (simp add: geoColumn_def)
  with assms have c: "obj_get (obj_delete ''id'' (obj_delete (prop_key idColumn) value)) geoColumn
      = obj_get value geoColumn"
    by (simp add: obj_get_delete_other)
  have p: "obj_delete geoColumn (obj_delete ''id'' (obj_delete (prop_key idColumn) value))
      = filter (\<lambda>(k, v). k \<noteq> ''id'' \<and> k \<noteq> prop_key idColumn \<and> k \<noteq> geoColumn) value"
    by (simp add: obj_delete_def case_prod_unfold conj_ac)
  show ?thesis
    by (simp add: pointFeature_def spec_point_feature_def Let_def c p)
qed

lemma pointFeatures_resolved:
  assumes "prop_key idColumn \<noteq> geoColumn"
      and "pointFeatures idColumn ps = (features, store)"
  shows "map (resolve (Some store)) features = map (spec_point_feature idColumn) ps"
proof (rule nth_equalityI)
  from assms(2) show "length (map (resolve (Some store)) features) = length (map (spec_point_feature idColumn) ps)"
    by (auto simp: pointFeatures_def Let_def)
next
  fix k assume "k < length (map (resolve (Some store)) features)"
  with assms(2) have k: "k < length ps"
    by (auto simp: pointFeatures_def Let_def)
  then have z: "zip [0 ..< length ps] ps ! k = (k, ps ! k)" by simp
  from assms(2) k z show "map (resolve (Some store)) features ! k = map (spec_point_feature idColumn) ps ! k"
    by (auto simp: pointFeatures_def Let_def pointFeature_resolved [OF assms(1)] resolve_def
        spec_point_feature_def)
qed

lemma distinct_first_occurrence:
  assumes "distinct (map f xs)" "k < length xs"
  shows "f (xs ! k) \<notin> f ` set (take k xs)"
proof
  assume "f (xs ! k) \<in> f ` set (take k xs)"
  then obtain j where j: "j < k" "f (xs ! j) = f (xs ! k)"
    using assms(2) by (auto simp: in_set_conv_nth)
  with assms have "j = k"
    by (metis (no_types, lifting) length_map less_trans nth_eq_iff_index_eq nth_map)
  with j(1) show False by simp
qed

lemma lineFeatures_resolved:
  assumes p: "\<forall>row \<in> set rows. parse (row_data row) \<noteq> None"
      and u: "\<forall>row \<in> set rows. row_id row \<noteq> JUndefined"
      and d: "distinct (map row_id rows)"
      and r: "lineFeatures parse rows properties = Inr (fs, st')"
  shows "map (resolve st') fs = map (spec_line_feature parse properties) rows"
proof (cases properties)
  case None
  with r lineFeatures_without_properties [OF p] show ?thesis
    by (auto simp: resolve_def spec_line_feature_def)
next
  case (Some ps)
  from lineFeatures_consumed [OF consumed_start u r [unfolded Some]] obtain fin where
    f: "st' = Some fin" "length fin = length ps"
      "\<forall>k<length rows. \<forall>i. f_properties (fs ! k) = Row i \<longrightarrow>
           i < length ps \<and> sameId (row_id (rows ! k)) (ps ! i)
           \<and> fin ! i = obj_delete ''id'' (ps ! i)"
      "\<forall>k<length rows. row_id (rows ! k) \<notin> {} \<union> row_id ` set (take k rows) \<longrightarrow>
           f_properties (fs ! k) =
             (case findIndex (sameId (row_id (rows ! k))) ps of
                None \<Rightarrow> Own [] | Some i \<Rightarrow> Row i)"
      "\<forall>k<length rows. f_type (fs ! k) = ''Feature'' \<and> f_id (fs ! k) = row_id (rows ! k)
           \<and> parse (row_data (rows ! k)) = Some (f_geometry (fs ! k))"
    by blast
  from r have len: "length fs = length rows" by (rule lineFeatures_length)
  show ?thesis
  proof (rule nth_equalityI)
    show "length (map (resolve st') fs) = length (map (spec_line_feature parse properties) rows)"
      using len by simp
  next
    fix k assume "k < length (map (resolve st') fs)"
    with len have k: "k < length rows" by simp
    from distinct_first_occurrence [OF d k] f(4) k
    have look: "f_properties (fs ! k) =
             (case findIndex (sameId (row_id (rows ! k))) ps of
                None \<Rightarrow> Own [] | Some i \<Rightarrow> Row i)" by simp
    have props: "deref st' (f_properties (fs ! k)) =
        (case find (sameId (row_id (rows ! k))) ps of None \<Rightarrow> [] | Some p \<Rightarrow> obj_delete ''id'' p)"
    proof (cases "findIndex (sameId (row_id (rows ! k))) ps")
      case None
      with look show ?thesis by (simp add: find_findIndex)
    next
      case (Some i)
      with look have "f_properties (fs ! k) = Row i" by simp
      with f(3) k have "i < length ps" "fin ! i = obj_delete ''id'' (ps ! i)" by auto
      with Some look f(1,2) show ?thesis by (simp add: find_findIndex)
    qed
    from f(5) k props len Some
    show "map (resolve st') fs ! k = map (spec_line_feature parse properties) rows ! k"
      by (simp add: resolve_def spec_line_feature_def)
  qed
qed

text \<open>The spatial query runner has no rows for points.\<close>

lemma runSqlQuery_geopoint:
  "runSqlQuery env st ''geopoint'' ids queryKey rawParams = (Inr [], st)"
  by (simp add: runSqlQuery_def)

text \<open>
  C3. Read through the flat document, the assembler gives: for the point kind (the id
  column of the request not being the coordinate column), one feature per clean property
  row, in the order of the rows, with the point geometry taken from the row's \<open>geo\<close>
  column and as properties the remaining columns without \<open>id\<close>, without the column the
  request names as its id column and without \<open>geo\<close>; no feature when there are no clean
  property rows and no geometry rows. For lines and polygons whose geometry rows parse
  and carry pairwise distinct, defined ids: one feature per geometry row, in the order
  of the rows, with the parsed geometry and as properties the first clean property row
  with the same id, without its \<open>id\<close>, or no properties when no row matches.
\<close>

theorem C3_assembly:
  "(type = ''geopoint'' \<and> prop_key idColumn \<noteq> geoColumn \<longrightarrow>
      wrapResult env idColumn type rows (Some ps) True =
        Inr (FeatureCollection (map (spec_point_feature idColumn) ps)))
   \<and> (type = ''geopoint'' \<and> rows = [] \<longrightarrow>
      wrapResult env idColumn type rows None True = Inr (FeatureCollection []))
   \<and> ((type \<noteq> ''geopoint'' \<or> properties = None)
       \<and> (\<forall>row \<in> set rows. JSON_parse env (row_data row) \<noteq> None)
       \<and> (\<forall>row \<in> set rows. row_id row \<noteq> JUndefined)
       \<and> distinct (map row_id rows) \<longrightarrow>
      wrapResult env idColumn type rows properties True =
        Inr (FeatureCollection (map (spec_line_feature (JSON_parse env) properties) rows)))"
proof (intro conjI impI)
  assume "type = ''geopoint'' \<and> prop_key idColumn \<noteq> geoColumn"
  then show "wrapResult env idColumn type rows (Some ps) True =
        Inr (FeatureCollection (map (spec_point_feature idColumn) ps))"
    using pointFeatures_resolved [of idColumn ps]
    by (auto simp: wrapResult_def assembleFeatures_def split: prod.splits)
next
  assume "type = ''geopoint'' \<and> rows = []"
  then show "wrapResult env idColumn type rows None True = Inr (FeatureCollection [])"
    by (simp add: wrapResult_def assembleFeatures_def)
next
  assume h: "(type \<noteq> ''geopoint'' \<or> properties = None)
       \<and> (\<forall>row \<in> set rows. JSON_parse env (row_data row) \<noteq> None)
       \<and> (\<forall>row \<in> set rows. row_id row \<noteq> JUndefined)
       \<and> distinct (map row_id rows)"
  then have a: "assembleFeatures (JSON_parse env) idColumn type rows properties
      = lineFeatures (JSON_parse env) rows properties"
    by (auto simp: assembleFeatures_def)
  from h lineFeatures_succeeds [of rows "JSON_parse env" properties] obtain fs st' where
    r: "lineFeatures (JSON_parse env) rows properties = Inr (fs, st')" by blast
  from h lineFeatures_resolved [OF _ _ _ r]
  have "map (resolve st') fs = map (spec_line_feature (JSON_parse env) properties) rows" by blast
  with a r show "wrapResult env idColumn type rows properties True =
        Inr (FeatureCollection (map (spec_line_feature (JSON_parse env) properties) rows))"
    by (simp add: wrapResult_def)
qed

lemma demo_json_polygon: "demo_json (JStr demo_polygon_text) = Some demo_polygon"
  by (simp add: demo_json_def demo_polygon_text_def demo_sanitized_text_def)

lemma demo_env_simps:
  "JSON_parse demo_env = demo_json" "parseWikidataValue demo_env = demo_parse"
  by (simp_all add: demo_env_def)

theorem C3_assembly_witness:
  "wrapResult demo_env None ''geopoint'' [] (Some [q1_point]) True =
     Inr (FeatureCollection
       [\<lparr> f_type = ''Feature'', f_id = JStr ''Q1'', f_properties = [(''name'', JStr ''x'')],
          f_geometry = JObj [(''type'', JStr ''Point''), (''coordinates'', JArr [JNum 1, JNum 2])] \<rparr>])
   \<and> wrapResult demo_env None ''geopoint'' [] None True = Inr (FeatureCollection [])
   \<and> wrapResult demo_env None ''geoshape'' two_rows (Some [q1_named]) True =
     Inr (FeatureCollection
       [\<lparr> f_type = ''Feature'', f_id = JStr ''Q1'', f_properties = [(''name'', JStr ''x'')],
          f_geometry = demo_polygon \<rparr>,
        \<lparr> f_type = ''Feature'', f_id = JStr ''Q2'', f_properties = [],
          f_geometry = demo_polygon \<rparr>])"
proof -
  have a: "''geopoint'' = ''geopoint'' \<and> prop_key None \<noteq> geoColumn"
    by (simp add: geoColumn_def)
  have b: "''geopoint'' = ''geopoint'' \<and> ([] :: geometry_row list) = []"
    by simp
  have c: "(''geoshape'' \<noteq> ''geopoint'' \<or> Some [q1_named] = None)
       \<and> (\<forall>row \<in> set two_rows. JSON_parse demo_env (row_data row) \<noteq> None)
       \<and> (\<forall>row \<in> set two_rows. row_id row \<noteq> JUndefined)
       \<and> distinct (map row_id two_rows)"
    by (simp add: two_rows_def demo_env_simps demo_json_polygon)
  have p: "map (spec_point_feature None) [q1_point] =
       [\<lparr> f_type = ''Feature'', f_id = JStr ''Q1'', f_properties = [(''name'', JStr ''x'')],
          f_geometry = JObj [(''type'', JStr ''Point''), (''coordinates'', JArr [JNum 1, JNum 2])] \<rparr>]"
    by (simp add: spec_point_feature_def q1_point_def geoColumn_def obj_get_def pointGeometry_def)
  have l: "map (spec_line_feature (JSON_parse demo_env) (Some [q1_named])) two_rows =
       [\<lparr> f_type = ''Feature'', f_id = JStr ''Q1'', f_properties = [(''name'', JStr ''x'')],
          f_geometry = demo_polygon \<rparr>,
        \<lparr> f_type = ''Feature'', f_id = JStr ''Q2'', f_properties = [],
          f_geometry = demo_polygon \<rparr>]"
    by (simp add: spec_line_feature_def two_rows_def q1_named_def demo_env_simps demo_json_polygon
        sameId_def strict_eq_def obj_get_def obj_delete_def)
  show ?thesis
    using C3_assembly [of "''geopoint''" None demo_env "[]" "[q1_point]" None]
      C3_assembly [of "''geoshape''" None demo_env two_rows "[]" "Some [q1_named]"]
      a b c p l
    by simp
qed

text \<open>
  The claim as stated fails when two geometry rows carry the same id: the clean property
  row with that id is found for the first, and the second feature has no properties. It
  also fails for a point whose row has a column with the name the request gives as its
  id column: that column is deleted together with \<open>id\<close> and \<open>geo\<close>.
\<close>

theorem C3_counterexample:
  "find (sameId (JStr ''Q1'')) [q1_named] = Some q1_named
   \<and> map row_id two_rows_same_id = [JStr ''Q1'', JStr ''Q1'']
   \<and> wrapResult demo_env None ''geoshape'' two_rows_same_id (Some [q1_named]) True =
     Inr (FeatureCollection
       [\<lparr> f_type = ''Feature'', f_id = JStr ''Q1'', f_properties = [(''name'', JStr ''x'')],
          f_geometry = demo_polygon \<rparr>,
        \<lparr> f_type = ''Feature'', f_id = JStr ''Q1'', f_properties = [],
          f_geometry = demo_polygon \<rparr>])
   \<and> wrapResult demo_env (Some ''name'') ''geopoint'' [] (Some [q1_point]) True =
     Inr (FeatureCollection
       [\<lparr> f_type = ''Feature'', f_id = JStr ''Q1'', f_properties = [],
          f_geometry = JObj [(''type'', JStr ''Point''), (''coordinates'', JArr [JNum 1, JNum 2])] \<rparr>])"
  by (simp add: wrapResult_def assembleFeatures_def attachProperties_def two_rows_same_id_def
      q1_named_def demo_env_simps demo_json_polygon sameId_def strict_eq_def obj_get_def
      obj_delete_def resolve_def pointFeatures_def pointFeature_def q1_point_def geoColumn_def
      pointGeometry_def Let_def)

text \<open>
  C10. In line and polygon assembly over geometry rows with defined ids: a feature whose
  properties are a clean property row refers to that very row of the store, the row had
  the id of the geometry row, and in the store the code leaves behind the row is without
  its \<open>id\<close>. The first geometry row with a given id receives the first clean property
  row with that id, if there is one. When two geometry rows carry the same id and at most
  one clean property row has that id, the later of the two has empty properties.
\<close>

theorem C10_shared_property_row:
  assumes "type \<noteq> ''geopoint''"
      and "assembleFeatures parse idColumn type rows (Some ps) = Inr (features, store)"
      and "\<forall>row \<in> set rows. row_id row \<noteq> JUndefined"
  shows "\<exists>fin. store = Some fin
     \<and> (\<forall>k<length rows. \<forall>i. f_properties (features ! k) = Row i \<longrightarrow>
           i < length ps \<and> sameId (row_id (rows ! k)) (ps ! i)
           \<and> fin ! i = obj_delete ''id'' (ps ! i))
     \<and> (\<forall>k<length rows. row_id (rows ! k) \<notin> row_id ` set (take k rows) \<longrightarrow>
           f_properties (features ! k) =
             (case findIndex (sameId (row_id (rows ! k))) ps of
                None \<Rightarrow> Own [] | Some i \<Rightarrow> Row i))
     \<and> (\<forall>j k. j < k \<and> k < length rows \<and> row_id (rows ! j) = row_id (rows ! k)
            \<and> length (filter (sameId (row_id (rows ! k))) ps) \<le> 1 \<longrightarrow>
           f_properties (features ! k) = Own [])"
proof -
  from assms(1,2) have r: "lineFeatures parse rows (Some ps) = Inr (features, store)"
    by (simp add: assembleFeatures_def)
  from lineFeatures_consumed [OF consumed_start assms(3) r] obtain fin where
    f: "store = Some fin"
      "\<forall>k<length rows. \<forall>i. f_properties (features ! k) = Row i \<longrightarrow>
           i < length ps \<and> sameId (row_id (rows ! k)) (ps ! i)
           \<and> fin ! i = obj_delete ''id'' (ps ! i)"
      "\<forall>k<length rows. row_id (rows ! k) \<notin> {} \<union> row_id ` set (take k rows) \<longrightarrow>
           f_properties (features ! k) =
             (case findIndex (sameId (row_id (rows ! k))) ps of
                None \<Rightarrow> Own [] | Some i \<Rightarrow> Row i)"
    by blast
  have l: "\<forall>j k. j < k \<and> k < length rows \<and> row_id (rows ! j) = row_id (rows ! k)
            \<and> length (filter (sameId (row_id (rows ! k))) ps) \<le> 1 \<longrightarrow>
           f_properties (features ! k) = Own []"
  proof (intro allI impI)
    fix j k
    assume h: "j < k \<and> k < length rows \<and> row_id (rows ! j) = row_id (rows ! k)
            \<and> length (filter (sameId (row_id (rows ! k))) ps) \<le> 1"
    then have "length (filter (sameId (row_id (rows ! k))) ps) \<le> 1" by simp
    from lineFeatures_later_empty [OF consumed_start assms(3) r this] h
    show "f_properties (features ! k) = Own []" by blast
  qed
  from f l show ?thesis by simp
qed

theorem C10_shared_property_row_witness:
  "assembleFeatures demo_json None ''geoshape'' two_rows_same_id (Some [q1_named]) =
     Inr ([\<lparr> f_type = ''Feature'', f_id = JStr ''Q1'', f_properties = Row 0,
              f_geometry = demo_polygon \<rparr>,
           \<lparr> f_type = ''Feature'', f_id = JStr ''Q1'', f_properties = Own [],
              f_geometry = demo_polygon \<rparr>],
          Some [[(''name'', JStr ''x'')]])
   \<and> (\<exists>fin. Some [[(''name'', JStr ''x'')]] = Some fin \<and> fin ! 0 = obj_delete ''id'' q1_named)"
proof -
  let ?fs = "[\<lparr> f_type = ''Feature'', f_id = JStr ''Q1'', f_properties = Row 0,
              f_geometry = demo_polygon \<rparr>,
           \<lparr> f_type = ''Feature'', f_id = JStr ''Q1'', f_properties = Own [],
              f_geometry = demo_polygon \<rparr>]"
  have t: "''geoshape'' \<noteq> ''geopoint''" by simp
  have a: "assembleFeatures demo_json None ''geoshape'' two_rows_same_id (Some [q1_named]) =
     Inr (?fs, Some [[(''name'', JStr ''x'')]])"
    by (simp add: assembleFeatures_def attachProperties_def two_rows_same_id_def
      q1_named_def demo_json_polygon sameId_def strict_eq_def obj_get_def obj_delete_def)
  have u: "\<forall>row \<in> set two_rows_same_id. row_id row \<noteq> JUndefined"
    by (simp add: two_rows_same_id_def)
  from C10_shared_property_row [OF t a u] obtain fin where
    "Some [[(''name'', JStr ''x'')]] = Some fin"
    "\<forall>k<length two_rows_same_id. \<forall>i. f_properties (?fs ! k) = Row i \<longrightarrow>
           i < length [q1_named] \<and> sameId (row_id (two_rows_same_id ! k)) ([q1_named] ! i)
           \<and> fin ! i = obj_delete ''id'' ([q1_named] ! i)"
    by blast
  then have "Some [[(''name'', JStr ''x'')]] = Some fin \<and> fin ! 0 = obj_delete ''id'' q1_named"
    by (auto simp: two_rows_same_id_def)
  with a show ?thesis by blast
qed

text \<open>
  The claim as stated fails when two clean property rows carry the id as well: the
  second geometry row then receives the second of them.
\<close>

theorem C10_counterexample:
  "map row_id two_rows_same_id = [JStr ''Q1'', JStr ''Q1'']
   \<and> assembleFeatures demo_json None ''geoshape'' two_rows_same_id (Some [q1_named, q1_other]) =
     Inr ([\<lparr> f_type = ''Feature'', f_id = JStr ''Q1'', f_properties = Row 0,
              f_geometry = demo_polygon \<rparr>,
           \<lparr> f_type = ''Feature'', f_id = JStr ''Q1'', f_properties = Row 1,
              f_geometry = demo_polygon \<rparr>],
          Some [[(''name'', JStr ''x'')], [(''population'', JNum 5)]])"
  by (simp add: assembleFeatures_def attachProperties_def two_rows_same_id_def
      q1_named_def q1_other_def demo_json_polygon sameId_def strict_eq_def obj_get_def
      obj_delete_def)

section \<open>Properties of the format encoder\<close>

lemma index_of_nth: "x \<in> set xs \<Longrightarrow> index_of x xs < length xs \<and> xs ! index_of x xs = x"
  by (induction xs) auto

text \<open>A line that is in the table is found again under its position.\<close>

lemma decode_encode:
  "set (lines_at d v) \<subseteq> set table \<Longrightarrow> decode_arcs table (encode_at d table v) = v"
proof (induction d arbitrary: v)
  case 0
  then show ?case by (simp add: index_of_nth)
next
  case (Suc d)
  show ?case
  proof (cases v)
    case (JArr vs)
    have "\<And>x. x \<in> set vs \<Longrightarrow> decode_arcs table (encode_at d table x) = x"
    proof -
      fix x assume "x \<in> set vs"
      with Suc.prems JArr have "set (lines_at d x) \<subseteq> set table" by auto
      then show "decode_arcs table (encode_at d table x) = x" by (rule Suc.IH)
    qed
    then have "map (\<lambda>x. decode_arcs table (encode_at d table x)) vs = vs"
      by (simp add: map_idI)
    with JArr show ?thesis by (simp add: o_def)
  qed simp_all
qed

lemma split_geometry_Some:
  "split_geometry g = Some (t, d, c) \<Longrightarrow> g = join_geometry t c"
  by (induction g rule: split_geometry.induct) (auto simp: join_geometry_def split: if_splits)

text \<open>
  Decoding a topology gives back, feature by feature and in order, the id, the geometry
  and what the property transform returned.
\<close>

lemma topology_features_topology:
  "topology_features (topology fs transform) =
     map (\<lambda>f. \<lparr> f_type = ''Feature'', f_id = f_id f, f_properties = transform f,
                 f_geometry = f_geometry f \<rparr>) fs"
proof -
  let ?table = "remdups (concat (map (\<lambda>f. geometry_lines (f_geometry f)) fs))"
  have g: "(case (case split_geometry (f_geometry f) of
                    Some (t, d, c) \<Rightarrow> Lines t (encode_at d ?table c)
                  | None \<Rightarrow> Whole (f_geometry f)) of
              Lines t a \<Rightarrow> join_geometry t (decode_arcs ?table a)
            | Whole g \<Rightarrow> g) = f_geometry f" if "f \<in> set fs" for f
  proof (cases "split_geometry (f_geometry f)")
    case None
    then show ?thesis by simp
  next
    case (Some tdc)
    obtain t d c where tdc: "tdc = (t, d, c)" by (cases tdc)
    from Some tdc have "geometry_lines (f_geometry f) = lines_at d c"
      by (simp add: geometry_lines_def)
    with that have "set (lines_at d c) \<subseteq> set ?table" by auto
    then have "decode_arcs ?table (encode_at d ?table c) = c" by (rule decode_encode)
    with Some tdc split_geometry_Some [of "f_geometry f" t d c] show ?thesis by simp
  qed
  have "topology_features (topology fs transform) =
     map (\<lambda>f. \<lparr> f_type = ''Feature'', f_id = f_id f, f_properties = transform f,
                 f_geometry =
                   (case (case split_geometry (f_geometry f) of
                            Some (t, d, c) \<Rightarrow> Lines t (encode_at d ?table c)
                          | None \<Rightarrow> Whole (f_geometry f)) of
                      Lines t a \<Rightarrow> join_geometry t (decode_arcs ?table a)
                    | Whole g \<Rightarrow> g) \<rparr>) fs"
    by (auto simp: topology_features_def topology_def Let_def o_def split: option.splits)
  also have "\<dots> = map (\<lambda>f. \<lparr> f_type = ''Feature'', f_id = f_id f, f_properties = transform f,
                 f_geometry = f_geometry f \<rparr>) fs"
    by (rule map_cong [OF refl]) (simp add: g)
  finally show ?thesis .
qed

lemma topology_round_trip:
  "\<forall>f \<in> set fs. f_type f = ''Feature'' \<Longrightarrow> topology_features (topology fs f_properties) = fs"
  by (simp add: topology_features_topology map_idI)

text \<open>With another property transform the properties of the features are not kept.\<close>

lemma topology_transform:
  "map f_properties (topology_features (topology fs transform)) = map transform fs"
  by (simp add: topology_features_topology o_def)

lemma lineFeatures_type:
  "lineFeatures parse rows st = Inr (fs, st') \<Longrightarrow> \<forall>f \<in> set fs. f_type f = ''Feature''"
proof (induction rows arbitrary: st fs)
  case Nil
  then show ?case by simp
next
  case (Cons row rows)
  from Cons.prems show ?case
    by (rule lineFeatures_Cons) (auto dest: Cons.IH)
qed

lemma assembleFeatures_type:
  assumes "assembleFeatures parse idColumn type rows properties = Inr (features, store)"
  shows "\<forall>f \<in> set (map (resolve store) features). f_type f = ''Feature''"
proof (cases "type = ''geopoint'' \<and> properties \<noteq> None")
  case True
  with assms have "\<forall>f \<in> set features. f_type f = ''Feature''"
    by (auto simp: assembleFeatures_def pointFeatures_def pointFeature_def Let_def
        split: prod.splits)
  then show ?thesis by (simp add: resolve_def)
next
  case False
  with assms have "lineFeatures parse rows properties = Inr (features, store)"
    by (auto simp: assembleFeatures_def)
  from lineFeatures_type [OF this] show ?thesis by (simp add: resolve_def)
qed

text \<open>Two features with the same ring share one arc.\<close>

lemma topology_shares_arcs:
  "topology
     [\<lparr> f_type = ''Feature'', f_id = JStr ''Q1'', f_properties = [(''name'', JStr ''x'')],
        f_geometry = demo_polygon \<rparr>,
      \<lparr> f_type = ''Feature'', f_id = JStr ''Q2'', f_properties = [],
        f_geometry = demo_polygon \<rparr>] f_properties =
   \<lparr> tp_arcs = [JArr [JArr [JNum 0, JNum 0], JArr [JNum 1, JNum 0],
                        JArr [JNum 1, JNum 1], JArr [JNum 0, JNum 0]]],
     tp_geometries =
       [\<lparr> to_id = JStr ''Q1'', to_properties = [(''name'', JStr ''x'')],
          to_shape = Lines ''Polygon'' (Arcs [Arc 0]) \<rparr>,
        \<lparr> to_id = JStr ''Q2'', to_properties = [],
          to_shape = Lines ''Polygon'' (Arcs [Arc 0]) \<rparr>] \<rparr>"
  by (simp add: topology_def demo_polygon_def geometry_lines_def line_depth_def Let_def)

text \<open>
  C4. When the assembler yields a feature list, the flat result is the feature collection
  of exactly these features, and the other result is the topology of these features
  with the projection of a feature onto its properties as property transform. Decoding
  that topology gives the assembled features back, each with its properties as they
  were. In general, the topology of a list of \<open>N\<close> features under this transform decodes
  to \<open>N\<close> features with the same properties, feature by feature.
\<close>

theorem C4_format:
  assumes "assembleFeatures (JSON_parse env) idColumn type rows properties = Inr (features, store)"
  shows "wrapResult env idColumn type rows properties True =
           Inr (FeatureCollection (map (resolve store) features))
       \<and> wrapResult env idColumn type rows properties False =
           Inr (Topology (topology (map (resolve store) features) f_properties))
       \<and> topology_features (topology (map (resolve store) features) f_properties)
           = map (resolve store) features
       \<and> length (topology_features (topology fs f_properties)) = length fs
       \<and> map f_properties (topology_features (topology fs f_properties)) = map f_properties fs"
proof -
  have flat: "wrapResult env idColumn type rows properties True =
           Inr (FeatureCollection (map (resolve store) features))"
    using assms by (simp add: wrapResult_def)
  have topo: "wrapResult env idColumn type rows properties False =
           Inr (Topology (topology (map (resolve store) features) f_properties))"
    using assms by (simp add: wrapResult_def)
  have decoded: "topology_features (topology (map (resolve store) features) f_properties)
           = map (resolve store) features"
    using assembleFeatures_type [OF assms] by (rule topology_round_trip)
  have law: "map f_properties (topology_features (topology fs f_properties)) = map f_properties fs"
    by (rule topology_transform)
  have len: "length (topology_features (topology fs f_properties)) = length fs"
    by (simp add: topology_features_topology)
  from flat topo decoded law len show ?thesis by simp
qed

theorem C4_format_witness:
  "wrapResult demo_env None ''geoshape'' two_rows (Some [q1_named]) True =
     Inr (FeatureCollection
       [\<lparr> f_type = ''Feature'', f_id = JStr ''Q1'', f_properties = [(''name'', JStr ''x'')],
          f_geometry = demo_polygon \<rparr>,
        \<lparr> f_type = ''Feature'', f_id = JStr ''Q2'', f_properties = [],
          f_geometry = demo_polygon \<rparr>])
   \<and> (\<exists>t. wrapResult demo_env None ''geoshape'' two_rows (Some [q1_named]) False = Inr (Topology t)
          \<and> topology_features t =
              [\<lparr> f_type = ''Feature'', f_id = JStr ''Q1'', f_properties = [(''name'', JStr ''x'')],
                 f_geometry = demo_polygon \<rparr>,
               \<lparr> f_type = ''Feature'', f_id = JStr ''Q2'', f_properties = [],
                 f_geometry = demo_polygon \<rparr>])"
proof -
  let ?fs = "[\<lparr> f_type = ''Feature'', f_id = JStr ''Q1'', f_properties = Row 0,
              f_geometry = demo_polygon \<rparr>,
           \<lparr> f_type = ''Feature'', f_id = JStr ''Q2'', f_properties = Own [],
              f_geometry = demo_polygon \<rparr>]"
  have a: "assembleFeatures (JSON_parse demo_env) None ''geoshape'' two_rows (Some [q1_named]) =
     Inr (?fs, Some [[(''name'', JStr ''x'')]])"
    by (simp add: assembleFeatures_def attachProperties_def two_rows_def demo_env_simps
      q1_named_def demo_json_polygon sameId_def strict_eq_def obj_get_def obj_delete_def)
  have r: "map (resolve (Some [[(''name'', JStr ''x'')]])) ?fs =
       [\<lparr> f_type = ''Feature'', f_id = JStr ''Q1'', f_properties = [(''name'', JStr ''x'')],
          f_geometry = demo_polygon \<rparr>,
        \<lparr> f_type = ''Feature'', f_id = JStr ''Q2'', f_properties = [],
          f_geometry = demo_polygon \<rparr>]"
    by (simp add: resolve_def)
  show ?thesis
    using C4_format [OF a] r by auto
qed

end
